theory Spec2Isabelle
  imports Main "HOL-Library.Word" "HOL-Library.Sublist"
begin

section \<open>The \<open>verify\<close> task of the buidler-etherscan plugin\<close>

text \<open>
  The source file \<^verbatim>\<open>packages/buidler-etherscan/src/index.ts\<close> holds one function,
  the asynchronous action \<^verbatim>\<open>verify\<close>. It is a straight line of guards and calls to
  collaborators that live in other modules (\<^verbatim>\<open>./config\<close>, \<^verbatim>\<open>./solc/SolcVersions\<close>,
  \<^verbatim>\<open>./network/prober\<close>, \<^verbatim>\<open>./solc/bytecode\<close>, \<^verbatim>\<open>./ABITypes\<close>, the ethers libraries).
  The embedding takes every collaborator as a field of a record of parameters, models an
  exception as the left summand of a sum, and returns, next to the result, the list of
  collaborator calls the run made, in the order it made them. A call is logged when it is
  issued, whether or not it then fails. The dynamic imports of the plugin's own modules and
  of the ethers libraries are taken to succeed; the import of the constructor-arguments
  module, whose path the user gives, may fail.
\<close>

subsection \<open>Data\<close>

type_synonym byte = "8 word"
type_synonym bytecode = "byte list"

text \<open>The result of \<^verbatim>\<open>getVersionNumber\<close>: the fields the guard at lines 59-64 reads.\<close>

record SolcVersion =
  major :: nat
  minor :: nat
  patch :: nat

text \<open>
  \<^verbatim>\<open>InferralType\<close>: the source names only \<^verbatim>\<open>InferralType.EXACT\<close>; the two other tags
  carry the names of the specification's data model.
\<close>

datatype InferralType = EXACT | METADATA | BYTECODE_ERA

text \<open>
  Exceptions. \<^verbatim>\<open>BuidlerPluginError(pluginName, message, parent?)\<close> is the only error the
  source constructs; the others are the errors its \<^verbatim>\<open>catch\<close> blocks tell apart
  (\<^verbatim>\<open>instanceof NetworkProberError\<close>, \<^verbatim>\<open>isABIArgumentLengthError\<close>,
  \<^verbatim>\<open>isABIArgumentTypeError\<close>), the two errors of the specification's taxonomy that the
  matcher raises, and any other exception a collaborator throws.
\<close>

datatype error =
    BuidlerPluginError string string "error option"
  | NetworkProberError string
  | ABIArgumentLengthError nat nat
  | ABIArgumentTypeError string string string
  | AmbiguousArtifactMatch "string list"
  | LibraryAddressInconsistency string
  | OtherError string

text \<open>
  Modelled from the spec: the LinkReference of section 3, a library's fully-qualified name
  and the byte offsets at which its address is substituted. The type is missing from the
  source file.
\<close>

record LinkReference =
  libraryName :: string
  linkOffsets :: "nat list"

text \<open>
  Modelled from the spec: the ImmutableReference of section 3. The specification gives the
  offsets and no length for the placeholder; the reference carries the length, which the
  spans of section 4.3 need. The type is missing from the source file.
\<close>

record ImmutableReference =
  immutableName :: string
  immutableOffsets :: "nat list"
  immutableLength :: nat

text \<open>
  Modelled from the spec: the CompiledArtifact of section 3. Of its fields \<^verbatim>\<open>verify\<close>
  reads the ABI alone. The type is missing from the source file.
\<close>

record CompiledArtifact =
  sourceName :: string
  artifactName :: string
  abi :: string
  creationBytecode :: bytecode
  deployedBytecode :: bytecode
  linkReferences :: "LinkReference list"
  immutableReferences :: "ImmutableReference list"

type_synonym libraryLinks = "(string \<times> bytecode) list"

text \<open>The value \<^verbatim>\<open>lookupMatchingBytecode\<close> resolves to when it is not \<^verbatim>\<open>null\<close>.\<close>

record ContractInformation =
  contract :: CompiledArtifact
  contractName :: string
  contractFilename :: string
  libraryLinks :: libraryLinks

text \<open>
  The compiler input: \<^verbatim>\<open>settings.libraries\<close>, which line 193 assigns, and everything else
  it holds, which \<^verbatim>\<open>verify\<close> never reads.
\<close>

record CompilerInput =
  settings_libraries :: libraryLinks
  otherInput :: string

record CompilerOutput =
  contracts :: "CompiledArtifact list"

text \<open>What the constructor-arguments module assigns to \<^verbatim>\<open>module.exports\<close>.\<close>

datatype moduleExport = ExportsArray "string list" | ExportsOther string

text \<open>
  A value that line 76 hands to \<^verbatim>\<open>Array.isArray\<close>: an array, or what the dynamic
  \<^verbatim>\<open>import\<close> of line 75 resolves to. The import resolves to the namespace object of the
  module (in the CommonJS build, the wrapper that the interop helper builds around
  \<^verbatim>\<open>module.exports\<close>): it holds the exports and is not itself an array.
\<close>

datatype jsValue = JSArray "string list" | JSModuleNamespace moduleExport

text \<open>The object that \<^verbatim>\<open>new Interface(abi)\<close> constructs at line 169.\<close>

datatype contractInterface = Interface string

record VerificationArgs =
  address :: string
  constructorArguments :: "string list"
  constructorArgs :: "string option"

text \<open>The object handed to \<^verbatim>\<open>toRequest\<close> at lines 201-208.\<close>

record RequestParams =
  req_apiKey :: string
  req_contractAddress :: string
  req_sourceCode :: string
  req_contractName :: string
  req_compilerVersion :: string
  req_constructorArguments :: string

text \<open>
  The calls a run can issue, with their arguments. \<open>IsIncluded\<close> carries the value the
  call returned as well. \<open>VerifyContract\<close> and \<open>GetVerificationStatus\<close> stand for the
  two calls to the Etherscan service that the module imports at lines 210-212.
\<close>

datatype event =
    GetDefaultEtherscanConfig
  | IsAddress string
  | GetVersionNumber string
  | ImportModule string
  | GetEtherscanEndpoint
  | RetrieveContractBytecode string
  | InferSolcVersion bytecode
  | IsIncluded SolcVersion bool
  | Compile
  | LookupMatchingBytecode bytecode InferralType
  | NewInterface string
  | EncodeDeploy contractInterface "string list"
  | JSONStringify CompilerInput
  | GetLongVersion SolcVersion
  | ToRequest RequestParams
  | VerifyContract RequestParams
  | GetVerificationStatus
  | ConsoleLog string

text \<open>
  The collaborators, in the order \<^verbatim>\<open>verify\<close> first uses them. The version range that
  \<^verbatim>\<open>inferSolcVersion\<close> resolves to is an object of a class that is not in the source
  file; \<^verbatim>\<open>verify\<close> uses its method \<^verbatim>\<open>isIncluded\<close>, its field \<^verbatim>\<open>inferralType\<close> and
  its string conversion, so the range is a type parameter with these three operations.
  Awaited collaborators and the calls inside a \<^verbatim>\<open>try\<close> block may throw; the
  synchronous calls outside one (\<^verbatim>\<open>isAddress\<close>, \<^verbatim>\<open>getVersionNumber\<close>,
  \<^verbatim>\<open>isIncluded\<close>, \<^verbatim>\<open>JSON.stringify\<close>, \<^verbatim>\<open>toRequest\<close>) are taken to return.
  \<open>newInterface\<close> is the constructor of line 169, outside the \<^verbatim>\<open>try\<close> block of
  lines 171-190: what it throws escapes unchanged. \<open>moduleExports\<close> loads the
  constructor-arguments module and gives what it assigns to \<^verbatim>\<open>module.exports\<close>, or the
  error of loading it. The fields \<open>apiKey\<close>, \<open>networkName\<close> and
  \<open>solcVersionString\<close> are \<^verbatim>\<open>getDefaultEtherscanConfig(config).apiKey\<close>,
  \<^verbatim>\<open>network.name\<close> and \<^verbatim>\<open>config.solc.version\<close>.
\<close>

record 'r collaborators =
  pluginName :: string
  apiKey :: "string option"
  networkName :: string
  solcVersionString :: string
  isAddress :: "string \<Rightarrow> bool"
  getVersionNumber :: "string \<Rightarrow> SolcVersion"
  moduleExports :: "string \<Rightarrow> error + moduleExport"
  getEtherscanEndpoint :: "error + string"
  retrieveContractBytecode :: "string \<Rightarrow> error + bytecode option"
  inferSolcVersion :: "bytecode \<Rightarrow> error + 'r"
  isIncluded :: "'r \<Rightarrow> SolcVersion \<Rightarrow> bool"
  inferralType :: "'r \<Rightarrow> InferralType"
  rangeToString :: "'r \<Rightarrow> string"
  compile :: "error + CompilerInput \<times> CompilerOutput"
  lookupMatchingBytecode ::
    "CompiledArtifact list \<Rightarrow> bytecode \<Rightarrow> InferralType \<Rightarrow> error + ContractInformation option"
  newInterface :: "string \<Rightarrow> error + contractInterface"
  encodeDeploy :: "contractInterface \<Rightarrow> string list \<Rightarrow> error + string"
  jsonStringify :: "CompilerInput \<Rightarrow> string"
  getLongVersion :: "SolcVersion \<Rightarrow> error + string"

type_synonym outcome = "event list \<times> (error + unit)"

definition emit :: "event \<Rightarrow> outcome \<Rightarrow> outcome" where
  "emit e k = (e # fst k, snd k)"

definition raise :: "error \<Rightarrow> outcome" where
  "raise e = ([], Inl e)"

definition finish :: outcome where
  "finish = ([], Inr ())"

subsection \<open>Strings\<close>

definition nl :: string where
  "nl = [CHR 0x0A]"

text \<open>
  \<^verbatim>\<open>String.prototype.trim\<close> on the one-byte characters of \<^typ>\<open>string\<close>: tab, line feed,
  vertical tab, form feed, carriage return, space and the no-break space.
\<close>

definition isWhiteSpace :: "char \<Rightarrow> bool" where
  "isWhiteSpace c = (c \<in> set [CHR 0x09, CHR 0x0A, CHR 0x0B, CHR 0x0C, CHR 0x0D, CHR 0x20, CHR 0xA0])"

definition trim :: "string \<Rightarrow> string" where
  "trim s = rev (dropWhile isWhiteSpace (rev (dropWhile isWhiteSpace s)))"

text \<open>A JavaScript number that holds a natural number, in a template literal.\<close>

definition digitChar :: "nat \<Rightarrow> char" where
  "digitChar d = ''0123456789'' ! d"

fun showNat :: "nat \<Rightarrow> string" where
  "showNat n = (if n < 10 then [digitChar n] else showNat (n div 10) @ [digitChar (n mod 10)])"

declare showNat.simps [simp del]

subsection \<open>Messages\<close>

definition apiKeyMessage :: string where
  "apiKeyMessage =
     ''Please provide an Etherscan API token via buidler config. '' @
     ''E.g.: { [...], etherscan: { apiKey: 'an API key' }, [...] }''"

definition unsupportedNetworkMessage :: string where
  "unsupportedNetworkMessage = ''Please select a network supported by Etherscan.''"

definition invalidAddressMessage :: "string \<Rightarrow> string" where
  "invalidAddressMessage addr = addr @ '' is an invalid address.''"

definition unsupportedVersionMessage :: string where
  "unsupportedVersionMessage =
     ''Etherscan only supports compiler versions 0.4.11 and higher.'' @ nl @
     ''See https://etherscan.io/solcversions for more information.''"

definition notAListMessage :: string where
  "notAListMessage =
     ''The module doesn't export a list. The module should look like this:'' @ nl @
     ''module.exports = [ arg1, arg2, ... ];''"

definition importFailedMessage :: string where
  "importFailedMessage = ''Importing the module for the constructor arguments list failed.''"

definition proberMessage :: "string \<Rightarrow> string \<Rightarrow> string" where
  "proberMessage msg net = msg @ '' The selected network is '' @ net @ ''.''"

definition noBytecodeMessage :: "string \<Rightarrow> string \<Rightarrow> string" where
  "noBytecodeMessage addr net =
     ''The address '' @ addr @
     '' has no bytecode. Is the contract deployed to this network?'' @ nl @
     ''The selected network is '' @ net @ ''.''"

definition detailedContext :: "InferralType \<Rightarrow> string \<Rightarrow> string" where
  "detailedContext ty rng =
     (if ty = EXACT then ''The expected version is '' @ rng @ ''.''
      else ''The expected version range is '' @ rng @ ''.'')"

definition versionMismatchMessage :: "string \<Rightarrow> InferralType \<Rightarrow> string \<Rightarrow> string \<Rightarrow> string" where
  "versionMismatchMessage version ty rng net =
     ''The bytecode retrieved could not have been generated by the selected compiler.'' @ nl @
     ''The selected compiler version is v'' @ version @ ''.'' @ nl @
     detailedContext ty rng @ nl @
     ''The selected network is '' @ net @ ''.'' @ nl @
     ''Possible causes:'' @ nl @
     ''  - Wrong compiler version in buidler config'' @ nl @
     ''  - Wrong address for contract'' @ nl @
     ''  - Wrong network selected or faulty buidler network config''"

definition notFoundMessage :: "string \<Rightarrow> string" where
  "notFoundMessage net =
     ''The contract was not found among the ones present in this project.'' @ nl @
     ''The selected network is '' @ net @ ''.'' @ nl @
     ''Possible causes:'' @ nl @
     ''  - Wrong address for contract'' @ nl @
     ''  - Wrong network selected or faulty buidler network config''"

definition argumentLengthMessage :: "string \<Rightarrow> string \<Rightarrow> nat \<Rightarrow> nat \<Rightarrow> string" where
  "argumentLengthMessage file name types vals =
     ''The constructor for '' @ file @ '':'' @ name @ '' has '' @ showNat types @
     '' parameters'' @ nl @
     '' but '' @ showNat vals @ '' arguments were provided instead.'' @ nl"

definition argumentTypeMessage :: "string \<Rightarrow> string \<Rightarrow> string \<Rightarrow> string" where
  "argumentTypeMessage val arg reason =
     ''Value '' @ val @ '' cannot be encoded for the parameter '' @ arg @ ''.'' @ nl @
     ''Encoder error reason: '' @ reason @ nl"

definition submittedMessage :: "string \<Rightarrow> string" where
  "submittedMessage addr =
     ''Successfully submitted contract at '' @ addr @
     '' for verification on etherscan. Waiting for verification result...''"

definition verifiedMessage :: string where
  "verifiedMessage = ''Successfully verified contract on etherscan''"

subsection \<open>The action, last stage first\<close>

text \<open>
  Lines 192-222. The compiler input gets the libraries of the match, is serialised, the long
  version is awaited, the request is built, and the two messages are printed. The calls
  \<^verbatim>\<open>verifyContract\<close> (line 213) and \<^verbatim>\<open>getVerificationStatus\<close> (line 220) are commented
  out in the source, so the run issues neither.
\<close>

definition verify_submit ::
  "'r collaborators \<Rightarrow> VerificationArgs \<Rightarrow> string \<Rightarrow> SolcVersion \<Rightarrow> CompilerInput \<Rightarrow>
   ContractInformation \<Rightarrow> string \<Rightarrow> outcome" where
  "verify_submit env a key solcVersionConfig compilerInput contractInformation deployArgumentsEncoded =
     (let compilerInput' = compilerInput\<lparr>settings_libraries := libraryLinks contractInformation\<rparr>;
          compilerInputJSON = jsonStringify env compilerInput'
      in emit (JSONStringify compilerInput')
        (emit (GetLongVersion solcVersionConfig)
          (case getLongVersion env solcVersionConfig of
             Inl err \<Rightarrow> raise err
           | Inr solcFullVersion \<Rightarrow>
               emit (ToRequest \<lparr>req_apiKey = key,
                                req_contractAddress = address a,
                                req_sourceCode = compilerInputJSON,
                                req_contractName = contractName contractInformation,
                                req_compilerVersion = solcFullVersion,
                                req_constructorArguments = deployArgumentsEncoded\<rparr>)
                 (emit (ConsoleLog (submittedMessage (address a)))
                   (emit (ConsoleLog verifiedMessage) finish)))))"

text \<open>
  Lines 165-190: the interface is built from the ABI of the match, outside the
  \<^verbatim>\<open>try\<close> block, and the constructor arguments are encoded inside it.
\<close>

definition verify_encode ::
  "'r collaborators \<Rightarrow> VerificationArgs \<Rightarrow> string \<Rightarrow> SolcVersion \<Rightarrow> string list \<Rightarrow>
   CompilerInput \<Rightarrow> ContractInformation \<Rightarrow> outcome" where
  "verify_encode env a key solcVersionConfig args compilerInput contractInformation =
     emit (NewInterface (abi (contract contractInformation)))
       (case newInterface env (abi (contract contractInformation)) of
          Inl err \<Rightarrow> raise err
        | Inr contractInterface \<Rightarrow>
            emit (EncodeDeploy contractInterface args)
              (case encodeDeploy env contractInterface args of
                 Inl err \<Rightarrow>
                   (case err of
                      ABIArgumentLengthError types vals \<Rightarrow>
                        raise (BuidlerPluginError (pluginName env)
                          (argumentLengthMessage (contractFilename contractInformation)
                             (contractName contractInformation) types vals) None)
                    | ABIArgumentTypeError val arg reason \<Rightarrow>
                        raise (BuidlerPluginError (pluginName env)
                          (argumentTypeMessage val arg reason) None)
                    | _ \<Rightarrow> raise err)
               | Inr deployArgumentsEncoded \<Rightarrow>
                   verify_submit env a key solcVersionConfig compilerInput contractInformation
                     deployArgumentsEncoded))"

text \<open>Lines 146-163: the project is compiled and the deployed bytecode is looked up.\<close>

definition verify_match ::
  "'r collaborators \<Rightarrow> VerificationArgs \<Rightarrow> string \<Rightarrow> SolcVersion \<Rightarrow> string list \<Rightarrow>
   bytecode \<Rightarrow> 'r \<Rightarrow> outcome" where
  "verify_match env a key solcVersionConfig args deployedContractBytecode solcVersionRange =
     emit Compile
       (case compile env of
          Inl err \<Rightarrow> raise err
        | Inr (compilerInput, compilerOutput) \<Rightarrow>
            emit (LookupMatchingBytecode deployedContractBytecode
                    (inferralType env solcVersionRange))
              (case lookupMatchingBytecode env (contracts compilerOutput)
                      deployedContractBytecode (inferralType env solcVersionRange) of
                 Inl err \<Rightarrow> raise err
               | Inr None \<Rightarrow>
                   raise (BuidlerPluginError (pluginName env)
                     (notFoundMessage (networkName env)) None)
               | Inr (Some contractInformation) \<Rightarrow>
                   verify_encode env a key solcVersionConfig args compilerInput
                     contractInformation))"

text \<open>Lines 126-144: the version range is inferred and the configured version checked.\<close>

definition verify_infer ::
  "'r collaborators \<Rightarrow> VerificationArgs \<Rightarrow> string \<Rightarrow> SolcVersion \<Rightarrow> string list \<Rightarrow>
   bytecode \<Rightarrow> outcome" where
  "verify_infer env a key solcVersionConfig args deployedContractBytecode =
     emit (InferSolcVersion deployedContractBytecode)
       (case inferSolcVersion env deployedContractBytecode of
          Inl err \<Rightarrow> raise err
        | Inr solcVersionRange \<Rightarrow>
            emit (IsIncluded solcVersionConfig (isIncluded env solcVersionRange solcVersionConfig))
              (if \<not> isIncluded env solcVersionRange solcVersionConfig
               then raise (BuidlerPluginError (pluginName env)
                      (versionMismatchMessage (solcVersionString env)
                         (inferralType env solcVersionRange)
                         (rangeToString env solcVersionRange) (networkName env)) None)
               else verify_match env a key solcVersionConfig args deployedContractBytecode
                      solcVersionRange))"

text \<open>Lines 94-124: the Etherscan endpoint is probed and the deployed bytecode retrieved.\<close>

definition verify_retrieve ::
  "'r collaborators \<Rightarrow> VerificationArgs \<Rightarrow> string \<Rightarrow> SolcVersion \<Rightarrow> string list \<Rightarrow> outcome" where
  "verify_retrieve env a key solcVersionConfig args =
     emit GetEtherscanEndpoint
       (case getEtherscanEndpoint env of
          Inl err \<Rightarrow>
            (case err of
               NetworkProberError msg \<Rightarrow>
                 raise (BuidlerPluginError (pluginName env)
                   (proberMessage msg (networkName env)) (Some err))
             | _ \<Rightarrow> raise err)
        | Inr etherscanAPIEndpoint \<Rightarrow>
            emit (RetrieveContractBytecode (address a))
              (case retrieveContractBytecode env (address a) of
                 Inl err \<Rightarrow> raise err
               | Inr None \<Rightarrow>
                   raise (BuidlerPluginError (pluginName env)
                     (noBytecodeMessage (address a) (networkName env)) None)
               | Inr (Some deployedContractBytecode) \<Rightarrow>
                   verify_infer env a key solcVersionConfig args deployedContractBytecode))"

text \<open>
  Line 75: \<^verbatim>\<open>await import(constructorArgsModule)\<close> throws what loading the module
  throws, and otherwise resolves to the namespace object around the module's exports.
\<close>

definition dynamicImport :: "'r collaborators \<Rightarrow> string \<Rightarrow> error + jsValue" where
  "dynamicImport env m =
     (case moduleExports env m of
        Inl err \<Rightarrow> Inl err
      | Inr exported \<Rightarrow> Inr (JSModuleNamespace exported))"

text \<open>
  Lines 72-92. The body of the \<^verbatim>\<open>try\<close> block is \<open>importConstructorArguments\<close>: the
  value the import resolved to is kept when \<^verbatim>\<open>Array.isArray\<close> holds of it, and line 77
  throws otherwise. The \<^verbatim>\<open>catch\<close> wraps whatever the body threw, the error of line 77
  included.
\<close>

definition importConstructorArguments :: "'r collaborators \<Rightarrow> string \<Rightarrow> error + string list" where
  "importConstructorArguments env m =
     (case dynamicImport env m of
        Inl err \<Rightarrow> Inl err
      | Inr (JSArray xs) \<Rightarrow> Inr xs
      | Inr (JSModuleNamespace exported) \<Rightarrow>
          Inl (BuidlerPluginError (pluginName env) notAListMessage None))"

definition verify_arguments ::
  "'r collaborators \<Rightarrow> VerificationArgs \<Rightarrow> string \<Rightarrow> SolcVersion \<Rightarrow> outcome" where
  "verify_arguments env a key solcVersionConfig =
     (case constructorArgs a of
        Some constructorArgsModule \<Rightarrow>
          emit (ImportModule constructorArgsModule)
            (case importConstructorArguments env constructorArgsModule of
               Inl err \<Rightarrow>
                 raise (BuidlerPluginError (pluginName env) importFailedMessage (Some err))
             | Inr xs \<Rightarrow> verify_retrieve env a key solcVersionConfig xs)
      | None \<Rightarrow> verify_retrieve env a key solcVersionConfig (constructorArguments a))"

text \<open>Lines 52-70: Etherscan supports no compiler older than 0.4.11.\<close>

definition unsupportedVersion :: "SolcVersion \<Rightarrow> bool" where
  "unsupportedVersion v =
     ((major v = 0 \<and> minor v = 4 \<and> patch v < 11) \<or> (major v = 0 \<and> minor v < 4))"

text \<open>Lines 22-70, and from there the rest of the action.\<close>

definition verify :: "'r collaborators \<Rightarrow> VerificationArgs \<Rightarrow> outcome" where
  "verify env a =
     emit GetDefaultEtherscanConfig
       (case apiKey env of
          None \<Rightarrow> raise (BuidlerPluginError (pluginName env) apiKeyMessage None)
        | Some key \<Rightarrow>
            if trim key = []
            then raise (BuidlerPluginError (pluginName env) apiKeyMessage None)
            else if networkName env = ''buidlerevm''
            then raise (BuidlerPluginError (pluginName env) unsupportedNetworkMessage None)
            else emit (IsAddress (address a))
              (if \<not> isAddress env (address a)
               then raise (BuidlerPluginError (pluginName env)
                      (invalidAddressMessage (address a)) None)
               else emit (GetVersionNumber (solcVersionString env))
                 (let solcVersionConfig = getVersionNumber env (solcVersionString env)
                  in if unsupportedVersion solcVersionConfig
                     then raise (BuidlerPluginError (pluginName env)
                            unsupportedVersionMessage None)
                     else verify_arguments env a key solcVersionConfig)))"

section \<open>The collaborators the specification describes\<close>

subsection \<open>Version ranges\<close>

text \<open>
  Modelled from the spec: the VersionRange of section 3 (a lower bound, inclusive, an
  optional upper bound, exclusive, and the inferral tag). The class that
  \<^verbatim>\<open>inferSolcVersion\<close> returns is in \<^verbatim>\<open>./solc/SolcVersions\<close>, which is not in the source
  file.
\<close>

record VersionRange =
  rangeLower :: SolcVersion
  rangeUpper :: "SolcVersion option"
  rangeInferral :: InferralType

text \<open>
  Modelled from the spec: the equality of section 4.5, strictly numeric on
  (major, minor, patch); the comparison functions are missing from the source file.
\<close>

definition versionEq :: "SolcVersion \<Rightarrow> SolcVersion \<Rightarrow> bool" where
  "versionEq v w = (major v = major w \<and> minor v = minor w \<and> patch v = patch w)"

text \<open>
  Modelled from the spec: the order of section 3, by (major, minor, patch); it is missing
  from the source file as well.
\<close>

definition versionLess :: "SolcVersion \<Rightarrow> SolcVersion \<Rightarrow> bool" where
  "versionLess v w =
     (major v < major w \<or>
      (major v = major w \<and> (minor v < minor w \<or> (minor v = minor w \<and> patch v < patch w))))"

text \<open>
  Modelled from the spec: \<^verbatim>\<open>isIncluded\<close> of section 4.2, true iff the candidate falls
  within [lower, upper) or, for Exact, equals the single version exactly; the method is
  missing from the source file.
\<close>

definition isIncludedSpec :: "VersionRange \<Rightarrow> SolcVersion \<Rightarrow> bool" where
  "isIncludedSpec r v =
     (if rangeInferral r = EXACT then versionEq v (rangeLower r)
      else (versionLess (rangeLower r) v \<or> versionEq (rangeLower r) v) \<and>
           (case rangeUpper r of None \<Rightarrow> True | Some u \<Rightarrow> versionLess v u))"

subsection \<open>Normalizer and matcher\<close>

text \<open>
  Modelled from the spec: the zero-filling of one region, given by its offset and length,
  of the Bytecode Normalizer of section 4.3. The module \<^verbatim>\<open>./solc/bytecode\<close> is not in
  the source file.
\<close>

definition zeroSpan :: "nat \<times> nat \<Rightarrow> bytecode \<Rightarrow> bytecode" where
  "zeroSpan s bs =
     map (\<lambda>(i, b). if fst s \<le> i \<and> i < fst s + snd s then 0 else b) (enumerate 0 bs)"

text \<open>
  Modelled from the spec: the placeholder regions of an artifact (sections 3 and 4.3). A
  link reference covers 20 bytes from each of its offsets, an immutable reference its
  length from each of its offsets. The reference tables are missing from the source file.
\<close>

definition placeholderSpans :: "CompiledArtifact \<Rightarrow> (nat \<times> nat) list" where
  "placeholderSpans c =
     concat (map (\<lambda>l. map (\<lambda>off. (off, 20)) (linkOffsets l)) (linkReferences c)) @
     concat (map (\<lambda>r. map (\<lambda>off. (off, immutableLength r)) (immutableOffsets r))
               (immutableReferences c))"

text \<open>
  Modelled from the spec: the canonical form of section 4.3. Every placeholder region is
  zero-filled, and the metadata suffix located by the parser of section 4.1 is zeroed as
  well, except in exact matching, which requires the metadata region to match. The parser,
  missing from the source file, is the parameter \<open>locate\<close>: it returns the span of the
  trailing metadata block, or nothing when the block is absent.
\<close>

definition normalize ::
  "(bytecode \<Rightarrow> (nat \<times> nat) option) \<Rightarrow> InferralType \<Rightarrow> (nat \<times> nat) list \<Rightarrow> bytecode \<Rightarrow> bytecode" where
  "normalize locate ty spans bs =
     (let zeroed = fold zeroSpan spans bs
      in if ty = EXACT then zeroed
         else (case locate bs of None \<Rightarrow> zeroed | Some s \<Rightarrow> zeroSpan s zeroed))"

text \<open>
  Modelled from the spec: steps 1 and 2 of the Candidate Matcher of section 4.4. The
  candidate's runtime bytecode and the deployed bytecode are normalized with the candidate's
  reference tables; a length mismatch rejects before the bytes are compared.
\<close>

definition matchesDeployed ::
  "(bytecode \<Rightarrow> (nat \<times> nat) option) \<Rightarrow> InferralType \<Rightarrow> bytecode \<Rightarrow> CompiledArtifact \<Rightarrow> bool" where
  "matchesDeployed locate ty deployed c =
     (length (deployedBytecode c) = length deployed \<and>
      normalize locate ty (placeholderSpans c) (deployedBytecode c) =
      normalize locate ty (placeholderSpans c) deployed)"

text \<open>
  Modelled from the spec: step 3 of section 4.4, the loop over the candidates that collects
  all those that compare equal, in the order of the compiler output.
\<close>

fun collectMatches ::
  "(bytecode \<Rightarrow> (nat \<times> nat) option) \<Rightarrow> InferralType \<Rightarrow> bytecode \<Rightarrow> CompiledArtifact list \<Rightarrow>
   CompiledArtifact list \<Rightarrow> CompiledArtifact list" where
  "collectMatches locate ty deployed [] found = rev found"
| "collectMatches locate ty deployed (c # cs) found =
     (if matchesDeployed locate ty deployed c
      then collectMatches locate ty deployed cs (c # found)
      else collectMatches locate ty deployed cs found)"

text \<open>
  Modelled from the spec: the resolution of library addresses in step 4 of section 4.4.
  Each link reference's address is read from the original deployed bytecode at its
  offsets; all offsets of one library must agree on the same 20-byte value.
\<close>

definition resolveLink :: "bytecode \<Rightarrow> LinkReference \<Rightarrow> error + libraryLinks" where
  "resolveLink deployed l =
     (case map (\<lambda>off. take 20 (drop off deployed)) (linkOffsets l) of
        [] \<Rightarrow> Inr []
      | addr # rest \<Rightarrow>
          if list_all (\<lambda>x. x = addr) rest then Inr [(libraryName l, addr)]
          else Inl (LibraryAddressInconsistency (libraryName l)))"

text \<open>
  Modelled from the spec: the same for each link reference of the artifact in turn; the
  first disagreement is fatal for the match attempt (section 7). The function is missing
  from the source file.
\<close>

fun resolveLinks :: "bytecode \<Rightarrow> LinkReference list \<Rightarrow> error + libraryLinks" where
  "resolveLinks deployed [] = Inr []"
| "resolveLinks deployed (l # ls) =
     (case resolveLink deployed l of
        Inl err \<Rightarrow> Inl err
      | Inr xs \<Rightarrow>
          (case resolveLinks deployed ls of Inl err \<Rightarrow> Inl err | Inr ys \<Rightarrow> Inr (xs @ ys)))"

text \<open>
  Modelled from the spec: step 4 of section 4.4, the function \<^verbatim>\<open>lookupMatchingBytecode\<close>
  of \<^verbatim>\<open>./solc/bytecode\<close>, which is not in the source file. Zero matches give no result,
  exactly one match gives the artifact with its resolved library addresses, more than one
  gives the ambiguous-match error naming all candidates.
\<close>

definition lookupMatchingBytecodeSpec ::
  "(bytecode \<Rightarrow> (nat \<times> nat) option) \<Rightarrow> CompiledArtifact list \<Rightarrow> bytecode \<Rightarrow> InferralType \<Rightarrow>
   error + ContractInformation option" where
  "lookupMatchingBytecodeSpec locate artifacts deployed ty =
     (case collectMatches locate ty deployed artifacts [] of
        [] \<Rightarrow> Inr None
      | [c] \<Rightarrow>
          (case resolveLinks deployed (linkReferences c) of
             Inl err \<Rightarrow> Inl err
           | Inr links \<Rightarrow>
               Inr (Some \<lparr>contract = c, contractName = artifactName c,
                          contractFilename = sourceName c, libraryLinks = links\<rparr>))
      | c # c' # cs \<Rightarrow> Inl (AmbiguousArtifactMatch (map artifactName (c # c' # cs))))"

section \<open>A sample project\<close>

text \<open>
  One contract without libraries, deployed on Ropsten, and collaborators that answer for
  it. The runs of the action on concrete inputs below start from this environment and
  change one field at a time.
\<close>

definition sampleAddress :: string where
  "sampleAddress = ''0x5FbDB2315678afecb367f032d93F642f64180aa3''"

definition sampleBytecode :: bytecode where
  "sampleBytecode = [0x60, 0x80, 0x60, 0x40, 0x52]"

text \<open>Both contracts of the project have a constructor that takes one number.\<close>

definition sampleAbi :: string where
  "sampleAbi = ''[{type: constructor, inputs: [{name: supply, type: uint256}]}]''"

definition sampleEncoded :: string where
  "sampleEncoded = ''0000000000000000000000000000000000000000000000000000000000000007''"

definition sampleEncode :: "contractInterface \<Rightarrow> string list \<Rightarrow> error + string" where
  "sampleEncode i args =
     (case args of
        [x] \<Rightarrow>
          if x = ''7'' then Inr sampleEncoded
          else Inl (ABIArgumentTypeError x ''supply'' ''invalid BigNumber string'')
      | _ \<Rightarrow> Inl (ABIArgumentLengthError 1 (length args)))"

definition sampleArtifact :: CompiledArtifact where
  "sampleArtifact =
     \<lparr>sourceName = ''contracts/Token.sol'', artifactName = ''Token'', abi = sampleAbi,
      creationBytecode = [0x60, 0x80, 0x60, 0x40, 0x52, 0xF3],
      deployedBytecode = [0x60, 0x80, 0x60, 0x40, 0x52],
      linkReferences = [], immutableReferences = []\<rparr>"

definition sampleInput :: CompilerInput where
  "sampleInput = \<lparr>settings_libraries = [(''Stale'', [])], otherInput = ''{language: Solidity}''\<rparr>"

definition sampleVersion :: "string \<Rightarrow> SolcVersion" where
  "sampleVersion s =
     (if s = ''0.3.6'' then \<lparr>major = 0, minor = 3, patch = 6\<rparr>
      else if s = ''0.4.10'' then \<lparr>major = 0, minor = 4, patch = 10\<rparr>
      else if s = ''0.4.11'' then \<lparr>major = 0, minor = 4, patch = 11\<rparr>
      else \<lparr>major = 0, minor = 5, patch = 0\<rparr>)"

text \<open>
  The modules of the project: \<^verbatim>\<open>arguments.js\<close> is \<^verbatim>\<open>module.exports = ["7"];\<close>,
  \<^verbatim>\<open>object.js\<close> is \<^verbatim>\<open>module.exports = {};\<close>, and there is no other.
\<close>

definition sampleModule :: "string \<Rightarrow> error + moduleExport" where
  "sampleModule m =
     (if m = ''./arguments.js'' then Inr (ExportsArray [''7''])
      else if m = ''./object.js'' then Inr (ExportsOther ''{}'')
      else Inl (OtherError ''Cannot find module''))"

definition metadataRange :: VersionRange where
  "metadataRange =
     \<lparr>rangeLower = \<lparr>major = 0, minor = 4, patch = 22\<rparr>,
      rangeUpper = Some \<lparr>major = 0, minor = 5, patch = 9\<rparr>,
      rangeInferral = METADATA\<rparr>"

definition sampleRangeString :: "VersionRange \<Rightarrow> string" where
  "sampleRangeString r = (if rangeInferral r = EXACT then ''0.5.0'' else ''0.4.22 - 0.5.8'')"

definition exactRange :: VersionRange where
  "exactRange =
     \<lparr>rangeLower = \<lparr>major = 0, minor = 5, patch = 0\<rparr>,
      rangeUpper = Some \<lparr>major = 0, minor = 5, patch = 1\<rparr>,
      rangeInferral = EXACT\<rparr>"

definition sampleEnv :: "VersionRange collaborators" where
  "sampleEnv =
     \<lparr>pluginName = ''@nomiclabs/buidler-etherscan'',
      apiKey = Some ''KEY'',
      networkName = ''ropsten'',
      solcVersionString = ''0.5.0'',
      isAddress = (\<lambda>s. length s = 42),
      getVersionNumber = sampleVersion,
      moduleExports = sampleModule,
      getEtherscanEndpoint = Inr ''https://api-ropsten.etherscan.io/api'',
      retrieveContractBytecode = (\<lambda>addr. Inr (if addr = sampleAddress then Some sampleBytecode else None)),
      inferSolcVersion = (\<lambda>bc. Inr exactRange),
      isIncluded = isIncludedSpec,
      inferralType = rangeInferral,
      rangeToString = sampleRangeString,
      compile = Inr (sampleInput, \<lparr>contracts = [sampleArtifact]\<rparr>),
      lookupMatchingBytecode = lookupMatchingBytecodeSpec (\<lambda>bs. None),
      newInterface = (\<lambda>abi. Inr (Interface abi)),
      encodeDeploy = sampleEncode,
      jsonStringify = (\<lambda>ci. concat (map fst (settings_libraries ci)) @ otherInput ci),
      getLongVersion = (\<lambda>v. Inr ''v0.5.0+commit.1d4f565a'')\<rparr>"

definition sampleArgs :: VerificationArgs where
  "sampleArgs =
     \<lparr>address = sampleAddress, constructorArguments = [''7''], constructorArgs = None\<rparr>"

text \<open>The project configured with the compilers 0.4.10, 0.4.11 and 0.3.6.\<close>

definition oldCompilerEnv :: "VersionRange collaborators" where
  "oldCompilerEnv = sampleEnv\<lparr>solcVersionString := ''0.4.10''\<rparr>"

definition mismatchEnv :: "VersionRange collaborators" where
  "mismatchEnv = sampleEnv\<lparr>solcVersionString := ''0.4.11''\<rparr>"

definition ancientCompilerEnv :: "VersionRange collaborators" where
  "ancientCompilerEnv = sampleEnv\<lparr>solcVersionString := ''0.3.6''\<rparr>"

text \<open>The compiler 0.4.11 against a bytecode whose metadata holds no exact version.\<close>

definition rangeEnv :: "VersionRange collaborators" where
  "rangeEnv = mismatchEnv\<lparr>inferSolcVersion := (\<lambda>bc. Inr metadataRange)\<rparr>"

text \<open>The same with no API key in the configuration.\<close>

definition noKeyEnv :: "VersionRange collaborators" where
  "noKeyEnv = ancientCompilerEnv\<lparr>apiKey := None\<rparr>"

text \<open>
  A second contract that calls a library: its runtime bytecode has a link reference at
  offset 10, and the deployed copy holds the library's address there.
\<close>

definition libraryAddress :: bytecode where
  "libraryAddress =
     [0xAA, 0xAA, 0xAA, 0xAA, 0xAA, 0xAA, 0xAA, 0xAA, 0xAA, 0xAA,
      0xAA, 0xAA, 0xAA, 0xAA, 0xAA, 0xAA, 0xAA, 0xAA, 0xAA, 0xAA]"

definition linkedArtifact :: CompiledArtifact where
  "linkedArtifact =
     \<lparr>sourceName = ''contracts/Vault.sol'', artifactName = ''Vault'', abi = sampleAbi,
      creationBytecode = [],
      deployedBytecode =
        [0x60, 0x80, 0x60, 0x40, 0x52, 0x60, 0x00, 0x80, 0xFD, 0x73,
         0, 0, 0, 0, 0, 0, 0, 0, 0, 0, 0, 0, 0, 0, 0, 0, 0, 0, 0, 0,
         0x63, 0xF3],
      linkReferences = [\<lparr>libraryName = ''contracts/Lib.sol:Lib'', linkOffsets = [10]\<rparr>],
      immutableReferences = []\<rparr>"

definition linkedBytecode :: bytecode where
  "linkedBytecode =
     [0x60, 0x80, 0x60, 0x40, 0x52, 0x60, 0x00, 0x80, 0xFD, 0x73] @ libraryAddress @
     [0x63, 0xF3]"

definition linkedEnv :: "VersionRange collaborators" where
  "linkedEnv =
     sampleEnv\<lparr>retrieveContractBytecode := (\<lambda>addr. Inr (Some linkedBytecode)),
               compile := Inr (sampleInput, \<lparr>contracts = [sampleArtifact, linkedArtifact]\<rparr>)\<rparr>"

definition linkedInformation :: ContractInformation where
  "linkedInformation =
     \<lparr>contract = linkedArtifact, contractName = ''Vault'',
      contractFilename = ''contracts/Vault.sol'',
      libraryLinks = [(''contracts/Lib.sol:Lib'', libraryAddress)]\<rparr>"

text \<open>A copy of the first contract under another name, and a bytecode of no contract.\<close>

definition duplicateArtifact :: CompiledArtifact where
  "duplicateArtifact =
     sampleArtifact\<lparr>sourceName := ''contracts/Copy.sol'', artifactName := ''TokenCopy''\<rparr>"

definition foreignBytecode :: bytecode where
  "foreignBytecode = [0x60, 0x80, 0x60, 0x40, 0x53]"

definition strangerEnv :: "VersionRange collaborators" where
  "strangerEnv =
     sampleEnv\<lparr>retrieveContractBytecode := (\<lambda>addr. Inr (Some foreignBytecode)),
               compile := Inr (sampleInput, \<lparr>contracts = [sampleArtifact, linkedArtifact]\<rparr>)\<rparr>"

text \<open>An address with no code, and the arguments taken from a module.\<close>

definition emptyAddress :: string where
  "emptyAddress = ''0x5fbdb2315678afecb367f032d93f642f64180aa4''"

definition emptyArgs :: VerificationArgs where
  "emptyArgs = sampleArgs\<lparr>address := emptyAddress\<rparr>"

definition moduleArgs :: "string \<Rightarrow> VerificationArgs" where
  "moduleArgs m = sampleArgs\<lparr>constructorArgs := Some m\<rparr>"

section \<open>The order of the calls\<close>

text \<open>
  The stage of the action at which a call is issued: the guards of lines 22-70, the import
  of the arguments module, the network, the version inference, the matching, the encoding
  and the request. The last stage holds the two calls the action never issues.
\<close>

fun stageOf :: "event \<Rightarrow> nat" where
  "stageOf GetDefaultEtherscanConfig = 0"
| "stageOf (IsAddress s) = 0"
| "stageOf (GetVersionNumber s) = 0"
| "stageOf (ImportModule m) = 1"
| "stageOf GetEtherscanEndpoint = 2"
| "stageOf (RetrieveContractBytecode s) = 2"
| "stageOf (InferSolcVersion bc) = 3"
| "stageOf (IsIncluded v b) = 3"
| "stageOf Compile = 4"
| "stageOf (LookupMatchingBytecode bc ty) = 4"
| "stageOf (NewInterface i) = 5"
| "stageOf (EncodeDeploy i xs) = 5"
| "stageOf (JSONStringify ci) = 6"
| "stageOf (GetLongVersion v) = 6"
| "stageOf (ToRequest rp) = 6"
| "stageOf (ConsoleLog s) = 6"
| "stageOf (VerifyContract rp) = 7"
| "stageOf GetVerificationStatus = 7"

text \<open>
  Whether a candidate's normalized bytecode equals the deployed bytecode, normalized with
  the candidate's reference tables.
\<close>

abbreviation sameNormalized ::
  "(bytecode \<Rightarrow> (nat \<times> nat) option) \<Rightarrow> InferralType \<Rightarrow> bytecode \<Rightarrow> CompiledArtifact \<Rightarrow> bool" where
  "sameNormalized locate ty deployed c \<equiv>
     normalize locate ty (placeholderSpans c) (deployedBytecode c) =
     normalize locate ty (placeholderSpans c) deployed"

section \<open>Properties of the run\<close>

subsection \<open>Each stage issues the calls of its own and of later stages\<close>

lemma fst_emit [simp]: "fst (emit e k) = e # fst k"
  by (simp add: emit_def)
lemma snd_emit [simp]: "snd (emit e k) = snd k"
  by (simp add: emit_def)
lemma fst_raise [simp]: "fst (raise e) = []"
  by (simp add: raise_def)
lemma snd_raise [simp]: "snd (raise e) = Inl e"
  by (simp add: raise_def)
lemma fst_finish [simp]: "fst finish = []"
  by (simp add: finish_def)
lemma snd_finish [simp]: "snd finish = Inr ()"
  by (simp add: finish_def)

lemma submit_stage: "e \<in> set (fst (verify_submit env a key cfg ci info enc)) \<Longrightarrow> stageOf e = 6"
  by (auto simp: verify_submit_def Let_def split: sum.splits)

lemma encode_stage:
  "e \<in> set (fst (verify_encode env a key cfg args ci info)) \<Longrightarrow> 5 \<le> stageOf e \<and> stageOf e \<le> 6"
  by (auto simp: verify_encode_def split: sum.splits error.splits dest: submit_stage)

lemma match_stage:
  "e \<in> set (fst (verify_match env a key cfg args bc r)) \<Longrightarrow> 4 \<le> stageOf e \<and> stageOf e \<le> 6"
  by (auto simp: verify_match_def split: sum.splits option.splits prod.splits dest: encode_stage)

lemma infer_stage:
  "e \<in> set (fst (verify_infer env a key cfg args bc)) \<Longrightarrow> 3 \<le> stageOf e \<and> stageOf e \<le> 6"
  by (auto simp: verify_infer_def split: sum.splits if_splits dest: match_stage)

lemma retrieve_stage:
  "e \<in> set (fst (verify_retrieve env a key cfg args)) \<Longrightarrow> 2 \<le> stageOf e \<and> stageOf e \<le> 6"
  by (auto simp: verify_retrieve_def split: sum.splits option.splits error.splits dest: infer_stage)

lemma arguments_stage:
  "e \<in> set (fst (verify_arguments env a key cfg)) \<Longrightarrow> 1 \<le> stageOf e \<and> stageOf e \<le> 6"
  by (auto simp: verify_arguments_def split: sum.splits option.splits dest: retrieve_stage)

lemma verify_stage: "e \<in> set (fst (verify env a)) \<Longrightarrow> stageOf e \<le> 6"
  by (auto simp: verify_def Let_def split: option.splits if_splits dest: arguments_stage)


subsection \<open>A call of a later stage was reached through the stages before it\<close>

lemma reach_arguments:
  assumes "e \<in> set (fst (verify env a))" and "1 \<le> stageOf e"
  shows "\<exists>key. apiKey env = Some key \<and> trim key \<noteq> [] \<and> networkName env \<noteq> ''buidlerevm'' \<and>
           isAddress env (address a) \<and>
           \<not> unsupportedVersion (getVersionNumber env (solcVersionString env)) \<and>
           e \<in> set (fst (verify_arguments env a key (getVersionNumber env (solcVersionString env)))) \<and>
           snd (verify env a) =
             snd (verify_arguments env a key (getVersionNumber env (solcVersionString env))) \<and>
           suffix (fst (verify_arguments env a key (getVersionNumber env (solcVersionString env))))
             (fst (verify env a))"
  using assms by (auto simp: verify_def Let_def suffix_Cons split: option.splits if_splits)

lemma reach_retrieve:
  assumes "e \<in> set (fst (verify_arguments env a key cfg))" and "2 \<le> stageOf e"
  shows "\<exists>args. constructorArgs a = None \<and> args = constructorArguments a \<and>
           e \<in> set (fst (verify_retrieve env a key cfg args)) \<and>
           snd (verify_arguments env a key cfg) = snd (verify_retrieve env a key cfg args) \<and>
           suffix (fst (verify_retrieve env a key cfg args)) (fst (verify_arguments env a key cfg))"
  using assms
  by (auto simp: verify_arguments_def importConstructorArguments_def dynamicImport_def suffix_Cons
           split: option.splits sum.splits jsValue.splits)

lemma reach_infer:
  assumes "e \<in> set (fst (verify_retrieve env a key cfg args))" and "3 \<le> stageOf e"
  shows "\<exists>url bc. getEtherscanEndpoint env = Inr url \<and>
           retrieveContractBytecode env (address a) = Inr (Some bc) \<and>
           e \<in> set (fst (verify_infer env a key cfg args bc)) \<and>
           snd (verify_retrieve env a key cfg args) = snd (verify_infer env a key cfg args bc) \<and>
           suffix (fst (verify_infer env a key cfg args bc)) (fst (verify_retrieve env a key cfg args))"
  using assms
  by (auto simp: verify_retrieve_def suffix_Cons split: option.splits sum.splits error.splits)

lemma reach_match:
  assumes "e \<in> set (fst (verify_infer env a key cfg args bc))" and "4 \<le> stageOf e"
  shows "\<exists>r. inferSolcVersion env bc = Inr r \<and> isIncluded env r cfg \<and>
           e \<in> set (fst (verify_match env a key cfg args bc r)) \<and>
           snd (verify_infer env a key cfg args bc) = snd (verify_match env a key cfg args bc r) \<and>
           suffix (fst (verify_match env a key cfg args bc r)) (fst (verify_infer env a key cfg args bc))"
  using assms
  by (auto simp: verify_infer_def suffix_Cons split: sum.splits if_splits)

lemma reach_encode:
  assumes "e \<in> set (fst (verify_match env a key cfg args bc r))" and "5 \<le> stageOf e"
  shows "\<exists>ci co info. compile env = Inr (ci, co) \<and>
           lookupMatchingBytecode env (contracts co) bc (inferralType env r) = Inr (Some info) \<and>
           e \<in> set (fst (verify_encode env a key cfg args ci info)) \<and>
           snd (verify_match env a key cfg args bc r) = snd (verify_encode env a key cfg args ci info) \<and>
           suffix (fst (verify_encode env a key cfg args ci info))
             (fst (verify_match env a key cfg args bc r))"
  using assms
  by (auto simp: verify_match_def suffix_Cons split: sum.splits option.splits prod.splits)

lemma reach_submit:
  assumes "e \<in> set (fst (verify_encode env a key cfg args ci info))" and "6 \<le> stageOf e"
  shows "\<exists>i enc. newInterface env (abi (contract info)) = Inr i \<and>
           encodeDeploy env i args = Inr enc \<and>
           e \<in> set (fst (verify_submit env a key cfg ci info enc)) \<and>
           snd (verify_encode env a key cfg args ci info) = snd (verify_submit env a key cfg ci info enc) \<and>
           suffix (fst (verify_submit env a key cfg ci info enc))
             (fst (verify_encode env a key cfg args ci info))"
  using assms
  by (auto simp: verify_encode_def suffix_Cons split: sum.splits error.splits)

subsection \<open>How far a run got\<close>

text \<open>The conditions under which a run gets as far as the matching, and as far as the request.\<close>

lemma reach_match_full:
  assumes e: "e \<in> set (fst (verify env a))" and s: "4 \<le> stageOf e"
  shows "\<exists>key args bc r.
           constructorArgs a = None \<and> args = constructorArguments a \<and>
           retrieveContractBytecode env (address a) = Inr (Some bc) \<and>
           inferSolcVersion env bc = Inr r \<and>
           e \<in> set (fst (verify_match env a key (getVersionNumber env (solcVersionString env)) args bc r)) \<and>
           snd (verify env a) =
             snd (verify_match env a key (getVersionNumber env (solcVersionString env)) args bc r) \<and>
           suffix (fst (verify_match env a key (getVersionNumber env (solcVersionString env)) args bc r))
             (fst (verify env a))"
proof -
  let ?cfg = "getVersionNumber env (solcVersionString env)"
  from reach_arguments [OF e] s obtain key
    where 1: "e \<in> set (fst (verify_arguments env a key ?cfg))"
      and s1: "snd (verify env a) = snd (verify_arguments env a key ?cfg)"
      and p1: "suffix (fst (verify_arguments env a key ?cfg)) (fst (verify env a))" by auto
  from reach_retrieve [OF 1] s obtain args
    where a: "constructorArgs a = None \<and> args = constructorArguments a"
      and 2: "e \<in> set (fst (verify_retrieve env a key ?cfg args))"
      and s2: "snd (verify_arguments env a key ?cfg) = snd (verify_retrieve env a key ?cfg args)"
      and p2: "suffix (fst (verify_retrieve env a key ?cfg args)) (fst (verify_arguments env a key ?cfg))"
    by auto
  from reach_infer [OF 2] s obtain bc
    where r: "retrieveContractBytecode env (address a) = Inr (Some bc)"
      and 3: "e \<in> set (fst (verify_infer env a key ?cfg args bc))"
      and s3: "snd (verify_retrieve env a key ?cfg args) = snd (verify_infer env a key ?cfg args bc)"
      and p3: "suffix (fst (verify_infer env a key ?cfg args bc)) (fst (verify_retrieve env a key ?cfg args))"
    by auto
  from reach_match [OF 3 s] obtain r
    where i: "inferSolcVersion env bc = Inr r"
      and 4: "e \<in> set (fst (verify_match env a key ?cfg args bc r))"
      and s4: "snd (verify_infer env a key ?cfg args bc) = snd (verify_match env a key ?cfg args bc r)"
      and p4: "suffix (fst (verify_match env a key ?cfg args bc r)) (fst (verify_infer env a key ?cfg args bc))"
    by auto
  have "suffix (fst (verify_match env a key ?cfg args bc r)) (fst (verify env a))"
    using p4 p3 p2 p1 by (meson suffix_order.order_trans)
  with a r i 4 s1 s2 s3 s4 show ?thesis by auto
qed

lemma match_stage_lookup:
  "LookupMatchingBytecode b ty \<in> set (fst (verify_match env a key cfg args bc r)) \<Longrightarrow>
   b = bc \<and> ty = inferralType env r"
  by (auto simp: verify_match_def split: sum.splits option.splits prod.splits dest: encode_stage)

lemma match_stage_found:
  assumes "compile env = Inr (ci, co)"
      and "lookupMatchingBytecode env (contracts co) bc (inferralType env r) = Inr (Some info)"
  shows "verify_match env a key cfg args bc r =
           emit Compile (emit (LookupMatchingBytecode bc (inferralType env r))
             (verify_encode env a key cfg args ci info))"
  using assms by (simp add: verify_match_def)

lemma encode_stage_call:
  "EncodeDeploy i xs \<in> set (fst (verify_encode env a key cfg args ci info)) \<Longrightarrow>
   newInterface env (abi (contract info)) = Inr i \<and> xs = args"
  by (auto simp: verify_encode_def split: sum.splits error.splits dest: submit_stage)

lemma encode_stage_encoded:
  assumes "newInterface env (abi (contract info)) = Inr i"
      and "encodeDeploy env i args = Inr enc"
  shows "verify_encode env a key cfg args ci info =
           emit (NewInterface (abi (contract info)))
             (emit (EncodeDeploy i args) (verify_submit env a key cfg ci info enc))"
  using assms by (simp add: verify_encode_def)

lemma submit_stage_calls:
  "\<exists>rest. fst (verify_submit env a key cfg ci info enc) =
            JSONStringify (ci\<lparr>settings_libraries := libraryLinks info\<rparr>) # rest \<and>
          (\<forall>x. JSONStringify x \<notin> set rest) \<and>
          (\<forall>rp. ToRequest rp \<in> set rest \<longrightarrow>
             req_sourceCode rp = jsonStringify env (ci\<lparr>settings_libraries := libraryLinks info\<rparr>))"
  by (auto simp: verify_submit_def Let_def split: sum.splits)


lemma reach_encode_full:
  assumes e: "e \<in> set (fst (verify env a))" and s: "5 \<le> stageOf e"
  shows "\<exists>key args bc r ci co info.
           constructorArgs a = None \<and> args = constructorArguments a \<and>
           retrieveContractBytecode env (address a) = Inr (Some bc) \<and>
           inferSolcVersion env bc = Inr r \<and>
           compile env = Inr (ci, co) \<and>
           lookupMatchingBytecode env (contracts co) bc (inferralType env r) = Inr (Some info) \<and>
           e \<in> set (fst (verify_encode env a key (getVersionNumber env (solcVersionString env)) args ci info)) \<and>
           snd (verify env a) =
             snd (verify_encode env a key (getVersionNumber env (solcVersionString env)) args ci info) \<and>
           suffix (fst (verify_encode env a key (getVersionNumber env (solcVersionString env)) args ci info))
             (fst (verify env a))"
proof -
  let ?cfg = "getVersionNumber env (solcVersionString env)"
  from s have "4 \<le> stageOf e" by simp
  from reach_match_full [OF e this] obtain key args bc r
    where a: "constructorArgs a = None \<and> args = constructorArguments a"
      and r: "retrieveContractBytecode env (address a) = Inr (Some bc)"
      and i: "inferSolcVersion env bc = Inr r"
      and 4: "e \<in> set (fst (verify_match env a key ?cfg args bc r))"
      and s4: "snd (verify env a) = snd (verify_match env a key ?cfg args bc r)"
      and p4: "suffix (fst (verify_match env a key ?cfg args bc r)) (fst (verify env a))"
    by auto
  from reach_encode [OF 4 s] obtain ci co info
    where c: "compile env = Inr (ci, co)"
      and l: "lookupMatchingBytecode env (contracts co) bc (inferralType env r) = Inr (Some info)"
      and 5: "e \<in> set (fst (verify_encode env a key ?cfg args ci info))"
      and s5: "snd (verify_match env a key ?cfg args bc r) = snd (verify_encode env a key ?cfg args ci info)"
      and p5: "suffix (fst (verify_encode env a key ?cfg args ci info))
                 (fst (verify_match env a key ?cfg args bc r))"
    by auto
  have "suffix (fst (verify_encode env a key ?cfg args ci info)) (fst (verify env a))"
    using p5 p4 by (rule suffix_order.order_trans)
  with a r i c l 5 s4 s5 show ?thesis by auto
qed

lemma reach_submit_full:
  assumes e: "e \<in> set (fst (verify env a))" and s: "6 \<le> stageOf e"
  shows "\<exists>key args bc r ci co info i enc.
           constructorArgs a = None \<and> args = constructorArguments a \<and>
           retrieveContractBytecode env (address a) = Inr (Some bc) \<and>
           inferSolcVersion env bc = Inr r \<and>
           compile env = Inr (ci, co) \<and>
           lookupMatchingBytecode env (contracts co) bc (inferralType env r) = Inr (Some info) \<and>
           newInterface env (abi (contract info)) = Inr i \<and>
           encodeDeploy env i args = Inr enc \<and>
           e \<in> set (fst (verify_submit env a key (getVersionNumber env (solcVersionString env)) ci info enc)) \<and>
           snd (verify env a) =
             snd (verify_submit env a key (getVersionNumber env (solcVersionString env)) ci info enc) \<and>
           suffix (fst (verify_submit env a key (getVersionNumber env (solcVersionString env)) ci info enc))
             (fst (verify env a))"
proof -
  let ?cfg = "getVersionNumber env (solcVersionString env)"
  from s have "5 \<le> stageOf e" by simp
  from reach_encode_full [OF e this] obtain key args bc r ci co info
    where a: "constructorArgs a = None \<and> args = constructorArguments a"
      and r: "retrieveContractBytecode env (address a) = Inr (Some bc)"
      and i: "inferSolcVersion env bc = Inr r"
      and c: "compile env = Inr (ci, co)"
      and l: "lookupMatchingBytecode env (contracts co) bc (inferralType env r) = Inr (Some info)"
      and 5: "e \<in> set (fst (verify_encode env a key ?cfg args ci info))"
      and s5: "snd (verify env a) = snd (verify_encode env a key ?cfg args ci info)"
      and p5: "suffix (fst (verify_encode env a key ?cfg args ci info)) (fst (verify env a))"
    by auto
  from reach_submit [OF 5 s] obtain iface enc
    where n: "newInterface env (abi (contract info)) = Inr iface"
      and d: "encodeDeploy env iface args = Inr enc"
      and 6: "e \<in> set (fst (verify_submit env a key ?cfg ci info enc))"
      and s6: "snd (verify_encode env a key ?cfg args ci info) = snd (verify_submit env a key ?cfg ci info enc)"
      and p6: "suffix (fst (verify_submit env a key ?cfg ci info enc))
                 (fst (verify_encode env a key ?cfg args ci info))"
    by auto
  have "suffix (fst (verify_submit env a key ?cfg ci info enc)) (fst (verify env a))"
    using p6 p5 by (rule suffix_order.order_trans)
  with a r i c l n d 6 s5 s6 show ?thesis by auto
qed

text \<open>What the run looked up is the retrieved bytecode, under the inferred type.\<close>

lemma lookup_call:
  assumes "LookupMatchingBytecode bc ty \<in> set (fst (verify env a))"
  shows "\<exists>r. retrieveContractBytecode env (address a) = Inr (Some bc) \<and>
           inferSolcVersion env bc = Inr r \<and> ty = inferralType env r"
proof -
  from reach_match_full [OF assms] obtain key args bc' r
    where r: "retrieveContractBytecode env (address a) = Inr (Some bc')"
      and i: "inferSolcVersion env bc' = Inr r"
      and 4: "LookupMatchingBytecode bc ty \<in> set (fst (verify_match env a key
                (getVersionNumber env (solcVersionString env)) args bc' r))"
    by auto
  from match_stage_lookup [OF 4] r i show ?thesis by auto
qed

subsection \<open>A run that returns normally has printed its last message\<close>

lemma submit_success:
  "snd (verify_submit env a key cfg ci info enc) = Inr u \<Longrightarrow>
   ConsoleLog verifiedMessage \<in> set (fst (verify_submit env a key cfg ci info enc))"
  by (auto simp: verify_submit_def Let_def split: sum.splits)

lemma encode_success:
  "snd (verify_encode env a key cfg args ci info) = Inr u \<Longrightarrow>
   ConsoleLog verifiedMessage \<in> set (fst (verify_encode env a key cfg args ci info))"
  by (auto simp: verify_encode_def split: sum.splits error.splits dest: submit_success)

lemma match_success:
  "snd (verify_match env a key cfg args bc r) = Inr u \<Longrightarrow>
   ConsoleLog verifiedMessage \<in> set (fst (verify_match env a key cfg args bc r))"
  by (auto simp: verify_match_def split: sum.splits option.splits prod.splits dest: encode_success)

lemma infer_success:
  "snd (verify_infer env a key cfg args bc) = Inr u \<Longrightarrow>
   ConsoleLog verifiedMessage \<in> set (fst (verify_infer env a key cfg args bc))"
  by (auto simp: verify_infer_def split: sum.splits if_splits dest: match_success)

lemma retrieve_success:
  "snd (verify_retrieve env a key cfg args) = Inr u \<Longrightarrow>
   ConsoleLog verifiedMessage \<in> set (fst (verify_retrieve env a key cfg args))"
  by (auto simp: verify_retrieve_def split: sum.splits option.splits error.splits dest: infer_success)

lemma arguments_success:
  "snd (verify_arguments env a key cfg) = Inr u \<Longrightarrow>
   ConsoleLog verifiedMessage \<in> set (fst (verify_arguments env a key cfg))"
  by (auto simp: verify_arguments_def split: sum.splits option.splits dest: retrieve_success)

lemma verify_success:
  "snd (verify env a) = Inr u \<Longrightarrow> ConsoleLog verifiedMessage \<in> set (fst (verify env a))"
  by (auto simp: verify_def Let_def split: option.splits if_splits dest: arguments_success)

lemma verify_error_or_logged:
  "(\<exists>err. snd (verify env a) = Inl err) \<or> ConsoleLog verifiedMessage \<in> set (fst (verify env a))"
  using verify_success [of env a] by (cases "snd (verify env a)") auto

subsection \<open>Unfolding the sample project\<close>

lemmas sample_defs =
  sampleEnv_def sampleArgs_def sampleAddress_def sampleBytecode_def sampleArtifact_def
  sampleInput_def sampleVersion_def sampleModule_def exactRange_def metadataRange_def
  sampleAbi_def sampleEncoded_def sampleEncode_def
  sampleRangeString_def rangeEnv_def oldCompilerEnv_def
  mismatchEnv_def ancientCompilerEnv_def noKeyEnv_def emptyAddress_def emptyArgs_def
  libraryAddress_def linkedArtifact_def linkedBytecode_def linkedEnv_def linkedInformation_def
  duplicateArtifact_def foreignBytecode_def strangerEnv_def
  moduleArgs_def

lemmas range_defs = isIncludedSpec_def versionEq_def versionLess_def

lemmas matcher_defs =
  lookupMatchingBytecodeSpec_def matchesDeployed_def normalize_def placeholderSpans_def
  zeroSpan_def resolveLink_def

lemmas stage_defs =
  verify_def verify_arguments_def importConstructorArguments_def dynamicImport_def
  verify_retrieve_def verify_infer_def verify_match_def verify_encode_def verify_submit_def
  unsupportedVersion_def trim_def isWhiteSpace_def emit_def raise_def finish_def Let_def

subsection \<open>Parts of the messages\<close>

lemma sublist_mid: "ys = ps @ xs @ ss \<Longrightarrow> sublist xs ys"
  by (auto simp: sublist_def)

lemma mismatch_message_context:
  "sublist (detailedContext ty rng) (versionMismatchMessage version ty rng net)"
  by (rule sublist_mid [where ps = "''The bytecode retrieved could not have been generated by the selected compiler.'' @ nl @
     ''The selected compiler version is v'' @ version @ ''.'' @ nl"]) (simp add: versionMismatchMessage_def)

lemma context_range: "sublist rng (detailedContext ty rng)"
proof (cases "ty = EXACT")
  case True
  then show ?thesis
    by (intro sublist_mid [where ps = "''The expected version is ''" and ss = "''.''"])
       (simp add: detailedContext_def)
next
  case False
  then show ?thesis
    by (intro sublist_mid [where ps = "''The expected version range is ''" and ss = "''.''"])
       (simp add: detailedContext_def)
qed

lemma not_found_message_parts:
  "sublist net (notFoundMessage net) \<and>
   sublist ''Wrong address for contract'' (notFoundMessage net) \<and>
   sublist ''Wrong network selected'' (notFoundMessage net)"
proof (intro conjI)
  show "sublist net (notFoundMessage net)"
    by (rule sublist_mid [where
          ps = "''The contract was not found among the ones present in this project.'' @ nl @
                ''The selected network is ''"])
       (simp add: notFoundMessage_def)
  show "sublist ''Wrong address for contract'' (notFoundMessage net)"
    by (rule sublist_mid [where
          ps = "''The contract was not found among the ones present in this project.'' @ nl @
                ''The selected network is '' @ net @ ''.'' @ nl @ ''Possible causes:'' @ nl @
                ''  - ''"])
       (simp add: notFoundMessage_def)
  show "sublist ''Wrong network selected'' (notFoundMessage net)"
    by (rule sublist_mid [where ss = "'' or faulty buidler network config''" and
          ps = "''The contract was not found among the ones present in this project.'' @ nl @
                ''The selected network is '' @ net @ ''.'' @ nl @ ''Possible causes:'' @ nl @
                ''  - Wrong address for contract'' @ nl @ ''  - ''"])
       (simp add: notFoundMessage_def)
qed

subsection \<open>Runs of the sample project\<close>

lemma run_mismatch:
  "verify mismatchEnv sampleArgs =
     ([GetDefaultEtherscanConfig, IsAddress sampleAddress, GetVersionNumber ''0.4.11'',
       GetEtherscanEndpoint, RetrieveContractBytecode sampleAddress,
       InferSolcVersion sampleBytecode,
       IsIncluded \<lparr>major = 0, minor = 4, patch = 11\<rparr> False],
      Inl (BuidlerPluginError ''@nomiclabs/buidler-etherscan''
            (versionMismatchMessage ''0.4.11'' EXACT ''0.5.0'' ''ropsten'') None))"
  by (simp add: stage_defs sample_defs range_defs)

lemma run_range:
  "verify rangeEnv sampleArgs =
     ([GetDefaultEtherscanConfig, IsAddress sampleAddress, GetVersionNumber ''0.4.11'',
       GetEtherscanEndpoint, RetrieveContractBytecode sampleAddress,
       InferSolcVersion sampleBytecode,
       IsIncluded \<lparr>major = 0, minor = 4, patch = 11\<rparr> False],
      Inl (BuidlerPluginError ''@nomiclabs/buidler-etherscan''
            (versionMismatchMessage ''0.4.11'' METADATA ''0.4.22 - 0.5.8'' ''ropsten'') None))"
  by (simp add: stage_defs sample_defs range_defs)

lemma run_empty:
  "verify sampleEnv emptyArgs =
     ([GetDefaultEtherscanConfig, IsAddress emptyAddress, GetVersionNumber ''0.5.0'',
       GetEtherscanEndpoint, RetrieveContractBytecode emptyAddress],
      Inl (BuidlerPluginError ''@nomiclabs/buidler-etherscan''
            (noBytecodeMessage emptyAddress ''ropsten'') None))"
  by (simp add: stage_defs sample_defs)

lemma run_ancient:
  "verify ancientCompilerEnv sampleArgs =
     ([GetDefaultEtherscanConfig, IsAddress sampleAddress, GetVersionNumber ''0.3.6''],
      Inl (BuidlerPluginError ''@nomiclabs/buidler-etherscan'' unsupportedVersionMessage None))"
  by (simp add: stage_defs sample_defs)

lemma run_old:
  "verify oldCompilerEnv sampleArgs =
     ([GetDefaultEtherscanConfig, IsAddress sampleAddress, GetVersionNumber ''0.4.10''],
      Inl (BuidlerPluginError ''@nomiclabs/buidler-etherscan'' unsupportedVersionMessage None))"
  by (simp add: stage_defs sample_defs)

lemma run_no_key:
  "verify noKeyEnv sampleArgs =
     ([GetDefaultEtherscanConfig],
      Inl (BuidlerPluginError ''@nomiclabs/buidler-etherscan'' apiKeyMessage None))"
  by (simp add: stage_defs sample_defs)

lemma lookup_sample:
  "lookupMatchingBytecodeSpec (\<lambda>bs. None) [sampleArtifact] sampleBytecode EXACT =
     Inr (Some \<lparr>contract = sampleArtifact, contractName = ''Token'',
                contractFilename = ''contracts/Token.sol'', libraryLinks = []\<rparr>)"
  by (simp add: matcher_defs sample_defs)

lemma lookup_linked:
  "lookupMatchingBytecodeSpec (\<lambda>bs. None) [sampleArtifact, linkedArtifact] linkedBytecode EXACT =
     Inr (Some linkedInformation)"
  by (simp add: matcher_defs sample_defs)

lemma run_sample:
  "verify sampleEnv sampleArgs =
     ([GetDefaultEtherscanConfig, IsAddress sampleAddress, GetVersionNumber ''0.5.0'',
       GetEtherscanEndpoint, RetrieveContractBytecode sampleAddress,
       InferSolcVersion sampleBytecode,
       IsIncluded \<lparr>major = 0, minor = 5, patch = 0\<rparr> True,
       Compile, LookupMatchingBytecode sampleBytecode EXACT,
       NewInterface sampleAbi, EncodeDeploy (Interface sampleAbi) [''7''],
       JSONStringify (sampleInput\<lparr>settings_libraries := []\<rparr>),
       GetLongVersion \<lparr>major = 0, minor = 5, patch = 0\<rparr>,
       ToRequest \<lparr>req_apiKey = ''KEY'', req_contractAddress = sampleAddress,
                  req_sourceCode = ''{language: Solidity}'', req_contractName = ''Token'',
                  req_compilerVersion = ''v0.5.0+commit.1d4f565a'',
                  req_constructorArguments = sampleEncoded\<rparr>,
       ConsoleLog (submittedMessage sampleAddress),
       ConsoleLog verifiedMessage],
      Inr ())"
proof -
  have l: "lookupMatchingBytecode sampleEnv [sampleArtifact] sampleBytecode EXACT =
     Inr (Some \<lparr>contract = sampleArtifact, contractName = ''Token'',
                contractFilename = ''contracts/Token.sol'', libraryLinks = []\<rparr>)"
    using lookup_sample by (simp add: sampleEnv_def)
  have i: "inferralType sampleEnv exactRange = EXACT"
    by (simp add: sample_defs)
  show ?thesis
    using l i
    by (simp add: stage_defs range_defs sampleEnv_def sampleArgs_def exactRange_def
          sampleVersion_def sampleAddress_def sampleInput_def sampleRangeString_def
          sampleEncode_def)
       (simp add: sampleArtifact_def)
qed


lemma run_linked:
  "verify linkedEnv sampleArgs =
     ([GetDefaultEtherscanConfig, IsAddress sampleAddress, GetVersionNumber ''0.5.0'',
       GetEtherscanEndpoint, RetrieveContractBytecode sampleAddress,
       InferSolcVersion linkedBytecode,
       IsIncluded \<lparr>major = 0, minor = 5, patch = 0\<rparr> True,
       Compile, LookupMatchingBytecode linkedBytecode EXACT,
       NewInterface sampleAbi, EncodeDeploy (Interface sampleAbi) [''7''],
       JSONStringify (sampleInput\<lparr>settings_libraries := [(''contracts/Lib.sol:Lib'', libraryAddress)]\<rparr>),
       GetLongVersion \<lparr>major = 0, minor = 5, patch = 0\<rparr>,
       ToRequest \<lparr>req_apiKey = ''KEY'', req_contractAddress = sampleAddress,
                  req_sourceCode = ''contracts/Lib.sol:Lib{language: Solidity}'',
                  req_contractName = ''Vault'',
                  req_compilerVersion = ''v0.5.0+commit.1d4f565a'',
                  req_constructorArguments = sampleEncoded\<rparr>,
       ConsoleLog (submittedMessage sampleAddress),
       ConsoleLog verifiedMessage],
      Inr ())"
proof -
  have l: "lookupMatchingBytecode linkedEnv [sampleArtifact, linkedArtifact] linkedBytecode EXACT =
     Inr (Some linkedInformation)"
    using lookup_linked by (simp add: linkedEnv_def sampleEnv_def)
  have i: "inferralType linkedEnv exactRange = EXACT"
    by (simp add: sample_defs)
  show ?thesis
    using l i
    by (simp add: stage_defs range_defs linkedEnv_def sampleEnv_def sampleArgs_def exactRange_def
          sampleVersion_def sampleAddress_def sampleInput_def sampleRangeString_def
          sampleEncode_def)
       (simp add: linkedInformation_def linkedArtifact_def)
qed

lemma run_module_list:
  "verify sampleEnv (moduleArgs ''./arguments.js'') =
     ([GetDefaultEtherscanConfig, IsAddress sampleAddress, GetVersionNumber ''0.5.0'',
       ImportModule ''./arguments.js''],
      Inl (BuidlerPluginError ''@nomiclabs/buidler-etherscan'' importFailedMessage
            (Some (BuidlerPluginError ''@nomiclabs/buidler-etherscan'' notAListMessage None))))"
  by (simp add: stage_defs sample_defs)

lemma run_module_object:
  "verify sampleEnv (moduleArgs ''./object.js'') =
     ([GetDefaultEtherscanConfig, IsAddress sampleAddress, GetVersionNumber ''0.5.0'',
       ImportModule ''./object.js''],
      Inl (BuidlerPluginError ''@nomiclabs/buidler-etherscan'' importFailedMessage
            (Some (BuidlerPluginError ''@nomiclabs/buidler-etherscan'' notAListMessage None))))"
  by (simp add: stage_defs sample_defs)

lemma run_module_missing:
  "verify sampleEnv (moduleArgs ''./missing.js'') =
     ([GetDefaultEtherscanConfig, IsAddress sampleAddress, GetVersionNumber ''0.5.0'',
       ImportModule ''./missing.js''],
      Inl (BuidlerPluginError ''@nomiclabs/buidler-etherscan'' importFailedMessage
            (Some (OtherError ''Cannot find module''))))"
  by (simp add: stage_defs sample_defs)

lemma run_stranger:
  "verify strangerEnv sampleArgs =
     ([GetDefaultEtherscanConfig, IsAddress sampleAddress, GetVersionNumber ''0.5.0'',
       GetEtherscanEndpoint, RetrieveContractBytecode sampleAddress,
       InferSolcVersion foreignBytecode,
       IsIncluded \<lparr>major = 0, minor = 5, patch = 0\<rparr> True,
       Compile, LookupMatchingBytecode foreignBytecode EXACT],
      Inl (BuidlerPluginError ''@nomiclabs/buidler-etherscan'' (notFoundMessage ''ropsten'') None))"
proof -
  have l: "lookupMatchingBytecode strangerEnv [sampleArtifact, linkedArtifact] foreignBytecode EXACT =
     Inr None"
    by (simp add: matcher_defs sample_defs)
  have i: "inferralType strangerEnv exactRange = EXACT"
    by (simp add: sample_defs)
  show ?thesis
    using l i
    by (simp add: stage_defs range_defs strangerEnv_def sampleEnv_def sampleArgs_def exactRange_def
          sampleVersion_def sampleAddress_def sampleInput_def sampleRangeString_def)
qed

section \<open>The claims\<close>

subsection \<open>A configured version outside the inferred range\<close>

lemma no_late_call_after_mismatch:
  assumes r: "retrieveContractBytecode env (address a) = Inr (Some bc)"
      and i: "inferSolcVersion env bc = Inr r"
      and n: "\<not> isIncluded env r (getVersionNumber env (solcVersionString env))"
      and e: "e \<in> set (fst (verify env a))"
  shows "stageOf e < 4"
proof (rule ccontr)
  assume "\<not> stageOf e < 4"
  then have s: "4 \<le> stageOf e" by simp
  let ?cfg = "getVersionNumber env (solcVersionString env)"
  from reach_arguments [OF e] s obtain key
    where 1: "e \<in> set (fst (verify_arguments env a key ?cfg))" by auto
  from reach_retrieve [OF 1] s obtain args
    where 2: "e \<in> set (fst (verify_retrieve env a key ?cfg args))" by auto
  from reach_infer [OF 2] s r obtain 3: "e \<in> set (fst (verify_infer env a key ?cfg args bc))"
    by auto
  from reach_match [OF 3 s] i n show False by auto
qed

text \<open>
  C1. For every deployed bytecode and configured compiler version: if the range inferred
  from the bytecode does not include the configured version (\<^verbatim>\<open>isIncluded\<close> returns
  false), \<^verbatim>\<open>verify\<close> raises an error, and the run calls neither \<^verbatim>\<open>compile\<close> nor
  \<^verbatim>\<open>lookupMatchingBytecode\<close>.
\<close>

theorem version_not_included_stops_before_matching:
  assumes "retrieveContractBytecode env (address a) = Inr (Some bc)"
      and "inferSolcVersion env bc = Inr r"
      and "\<not> isIncluded env r (getVersionNumber env (solcVersionString env))"
  shows "(\<exists>err. snd (verify env a) = Inl err) \<and>
         Compile \<notin> set (fst (verify env a)) \<and>
         (\<forall>b ty. LookupMatchingBytecode b ty \<notin> set (fst (verify env a)))"
proof -
  have late: "\<And>e. e \<in> set (fst (verify env a)) \<Longrightarrow> stageOf e < 4"
    using no_late_call_after_mismatch [OF assms] .
  have "ConsoleLog verifiedMessage \<notin> set (fst (verify env a))"
    using late [of "ConsoleLog verifiedMessage"] by auto
  then have "\<exists>err. snd (verify env a) = Inl err"
    using verify_error_or_logged [of env a] by simp
  moreover have "Compile \<notin> set (fst (verify env a))"
    using late [of Compile] by auto
  moreover have "\<forall>b ty. LookupMatchingBytecode b ty \<notin> set (fst (verify env a))"
    using late by fastforce
  ultimately show ?thesis by simp
qed

theorem version_not_included_stops_before_matching_witness:
  "retrieveContractBytecode mismatchEnv (address sampleArgs) = Inr (Some sampleBytecode) \<and>
   inferSolcVersion mismatchEnv sampleBytecode = Inr exactRange \<and>
   \<not> isIncluded mismatchEnv exactRange
       (getVersionNumber mismatchEnv (solcVersionString mismatchEnv)) \<and>
   (\<exists>err. snd (verify mismatchEnv sampleArgs) = Inl err) \<and>
   Compile \<notin> set (fst (verify mismatchEnv sampleArgs)) \<and>
   (\<forall>b ty. LookupMatchingBytecode b ty \<notin> set (fst (verify mismatchEnv sampleArgs)))"
proof -
  have h1: "retrieveContractBytecode mismatchEnv (address sampleArgs) = Inr (Some sampleBytecode)"
    by (simp add: sample_defs)
  have h2: "inferSolcVersion mismatchEnv sampleBytecode = Inr exactRange"
    by (simp add: sample_defs)
  have h3: "\<not> isIncluded mismatchEnv exactRange
              (getVersionNumber mismatchEnv (solcVersionString mismatchEnv))"
    by (simp add: sample_defs range_defs)
  from version_not_included_stops_before_matching [OF h1 h2 h3] h1 h2 h3
  show ?thesis by blast
qed

lemma infer_stage_mismatch:
  assumes "IsIncluded v False \<in> set (fst (verify_infer env a key cfg args bc))"
  shows "\<exists>r. inferSolcVersion env bc = Inr r \<and>
           snd (verify_infer env a key cfg args bc) =
             Inl (BuidlerPluginError (pluginName env)
                   (versionMismatchMessage (solcVersionString env) (inferralType env r)
                      (rangeToString env r) (networkName env)) None)"
  using assms
  by (auto simp: verify_infer_def split: sum.splits if_splits dest: match_stage)

text \<open>
  C7. Whenever \<^verbatim>\<open>verify\<close> raises the error of line 143, that is, in a run whose call
  of \<^verbatim>\<open>isIncluded\<close> returned false, the message of the error includes the inferred
  version range, as the range's string conversion prints it, and reflects the inferral
  type: for an Exact inferral it reads "The expected version is ...", for any other "The
  expected version range is ...".
\<close>

theorem version_mismatch_error_reports_range:
  assumes "IsIncluded v False \<in> set (fst (verify env a))"
  shows "\<exists>bc r msg.
           retrieveContractBytecode env (address a) = Inr (Some bc) \<and>
           inferSolcVersion env bc = Inr r \<and>
           msg = versionMismatchMessage (solcVersionString env) (inferralType env r)
                   (rangeToString env r) (networkName env) \<and>
           snd (verify env a) = Inl (BuidlerPluginError (pluginName env) msg None) \<and>
           sublist (rangeToString env r) msg \<and>
           sublist (if inferralType env r = EXACT
                    then ''The expected version is '' @ rangeToString env r @ ''.''
                    else ''The expected version range is '' @ rangeToString env r @ ''.'') msg"
proof -
  let ?cfg = "getVersionNumber env (solcVersionString env)"
  let ?e = "IsIncluded v False"
  from reach_arguments [OF assms] obtain key
    where 1: "?e \<in> set (fst (verify_arguments env a key ?cfg))"
      and s1: "snd (verify env a) = snd (verify_arguments env a key ?cfg)" by auto
  from reach_retrieve [OF 1] obtain args
    where 2: "?e \<in> set (fst (verify_retrieve env a key ?cfg args))"
      and s2: "snd (verify_arguments env a key ?cfg) = snd (verify_retrieve env a key ?cfg args)"
    by auto
  from reach_infer [OF 2] obtain bc
    where r: "retrieveContractBytecode env (address a) = Inr (Some bc)"
      and 3: "?e \<in> set (fst (verify_infer env a key ?cfg args bc))"
      and s3: "snd (verify_retrieve env a key ?cfg args) = snd (verify_infer env a key ?cfg args bc)"
    by auto
  from infer_stage_mismatch [OF 3] obtain r
    where i: "inferSolcVersion env bc = Inr r"
      and s4: "snd (verify_infer env a key ?cfg args bc) =
             Inl (BuidlerPluginError (pluginName env)
                   (versionMismatchMessage (solcVersionString env) (inferralType env r)
                      (rangeToString env r) (networkName env)) None)"
    by auto
  let ?msg = "versionMismatchMessage (solcVersionString env) (inferralType env r)
                (rangeToString env r) (networkName env)"
  have c: "sublist (detailedContext (inferralType env r) (rangeToString env r)) ?msg"
    by (rule mismatch_message_context)
  have "sublist (rangeToString env r) ?msg"
    using context_range c by (rule sublist_order.order_trans)
  moreover have "sublist (if inferralType env r = EXACT
                    then ''The expected version is '' @ rangeToString env r @ ''.''
                    else ''The expected version range is '' @ rangeToString env r @ ''.'') ?msg"
    using c by (simp add: detailedContext_def)
  ultimately show ?thesis using r i s1 s2 s3 s4 by auto
qed

theorem version_mismatch_error_reports_range_witness:
  "IsIncluded \<lparr>major = 0, minor = 4, patch = 11\<rparr> False
     \<in> set (fst (verify mismatchEnv sampleArgs)) \<and>
   snd (verify mismatchEnv sampleArgs) =
     Inl (BuidlerPluginError ''@nomiclabs/buidler-etherscan''
           (versionMismatchMessage ''0.4.11'' EXACT ''0.5.0'' ''ropsten'') None) \<and>
   sublist ''The expected version is 0.5.0.''
     (versionMismatchMessage ''0.4.11'' EXACT ''0.5.0'' ''ropsten'') \<and>
   IsIncluded \<lparr>major = 0, minor = 4, patch = 11\<rparr> False
     \<in> set (fst (verify rangeEnv sampleArgs)) \<and>
   snd (verify rangeEnv sampleArgs) =
     Inl (BuidlerPluginError ''@nomiclabs/buidler-etherscan''
           (versionMismatchMessage ''0.4.11'' METADATA ''0.4.22 - 0.5.8'' ''ropsten'') None) \<and>
   sublist ''The expected version range is 0.4.22 - 0.5.8.''
     (versionMismatchMessage ''0.4.11'' METADATA ''0.4.22 - 0.5.8'' ''ropsten'')"
proof -
  let ?v = "\<lparr>major = 0, minor = 4, patch = 11\<rparr>"
  have h1: "IsIncluded ?v False \<in> set (fst (verify mismatchEnv sampleArgs))"
    by (simp add: run_mismatch)
  have h2: "IsIncluded ?v False \<in> set (fst (verify rangeEnv sampleArgs))"
    by (simp add: run_range)
  from version_mismatch_error_reports_range [OF h1]
  have 1: "snd (verify mismatchEnv sampleArgs) =
     Inl (BuidlerPluginError ''@nomiclabs/buidler-etherscan''
           (versionMismatchMessage ''0.4.11'' EXACT ''0.5.0'' ''ropsten'') None) \<and>
   sublist ''The expected version is 0.5.0.''
     (versionMismatchMessage ''0.4.11'' EXACT ''0.5.0'' ''ropsten'')"
    by (auto simp: sample_defs)
  from version_mismatch_error_reports_range [OF h2]
  have 2: "snd (verify rangeEnv sampleArgs) =
     Inl (BuidlerPluginError ''@nomiclabs/buidler-etherscan''
           (versionMismatchMessage ''0.4.11'' METADATA ''0.4.22 - 0.5.8'' ''ropsten'') None) \<and>
   sublist ''The expected version range is 0.4.22 - 0.5.8.''
     (versionMismatchMessage ''0.4.11'' METADATA ''0.4.22 - 0.5.8'' ''ropsten'')"
    by (auto simp: sample_defs)
  from h1 h2 1 2 show ?thesis by simp
qed

subsection \<open>An address without code\<close>

lemma retrieve_stage_empty:
  assumes "RetrieveContractBytecode addr \<in> set (fst (verify_retrieve env a key cfg args))"
      and "retrieveContractBytecode env addr = Inr None"
  shows "addr = address a \<and>
         verify_retrieve env a key cfg args =
           ([GetEtherscanEndpoint, RetrieveContractBytecode (address a)],
            Inl (BuidlerPluginError (pluginName env)
                  (noBytecodeMessage (address a) (networkName env)) None))"
  using assms
  by (auto simp: verify_retrieve_def emit_def raise_def
           split: sum.splits option.splits error.splits dest: infer_stage)

lemma no_call_after_empty:
  assumes r: "retrieveContractBytecode env (address a) = Inr None"
      and e: "e \<in> set (fst (verify env a))"
  shows "stageOf e < 3"
proof (rule ccontr)
  assume "\<not> stageOf e < 3"
  then have s: "3 \<le> stageOf e" by simp
  let ?cfg = "getVersionNumber env (solcVersionString env)"
  from reach_arguments [OF e] s obtain key
    where 1: "e \<in> set (fst (verify_arguments env a key ?cfg))" by auto
  from reach_retrieve [OF 1] s obtain args
    where 2: "e \<in> set (fst (verify_retrieve env a key ?cfg args))" by auto
  from reach_infer [OF 2 s] r show False by auto
qed

lemma no_bytecode_message_parts:
  "sublist addr (noBytecodeMessage addr net) \<and> sublist net (noBytecodeMessage addr net)"
proof
  show "sublist addr (noBytecodeMessage addr net)"
    by (rule sublist_mid [where ps = "''The address ''"]) (simp add: noBytecodeMessage_def)
  show "sublist net (noBytecodeMessage addr net)"
    by (rule sublist_mid [where ss = "''.''" and
          ps = "''The address '' @ addr @
                '' has no bytecode. Is the contract deployed to this network?'' @ nl @
                ''The selected network is ''"])
       (simp add: noBytecodeMessage_def)
qed

text \<open>
  C6. If the run queries the code of the account and the query yields no bytecode
  (\<^verbatim>\<open>null\<close>) for the address, \<^verbatim>\<open>verify\<close> raises the error of line 119, whose message
  names the address and the selected network, and the run performs no version inference
  and no matching.
\<close>

theorem absent_bytecode_is_rejected:
  assumes "RetrieveContractBytecode addr \<in> set (fst (verify env a))"
      and "retrieveContractBytecode env addr = Inr None"
  shows "addr = address a \<and>
         snd (verify env a) =
           Inl (BuidlerPluginError (pluginName env)
                 (noBytecodeMessage (address a) (networkName env)) None) \<and>
         sublist (address a) (noBytecodeMessage (address a) (networkName env)) \<and>
         sublist (networkName env) (noBytecodeMessage (address a) (networkName env)) \<and>
         (\<forall>bc. InferSolcVersion bc \<notin> set (fst (verify env a))) \<and>
         (\<forall>v b. IsIncluded v b \<notin> set (fst (verify env a))) \<and>
         Compile \<notin> set (fst (verify env a)) \<and>
         (\<forall>b ty. LookupMatchingBytecode b ty \<notin> set (fst (verify env a)))"
proof -
  let ?cfg = "getVersionNumber env (solcVersionString env)"
  let ?e = "RetrieveContractBytecode addr"
  from reach_arguments [OF assms(1)] obtain key
    where 1: "?e \<in> set (fst (verify_arguments env a key ?cfg))"
      and s1: "snd (verify env a) = snd (verify_arguments env a key ?cfg)" by auto
  from reach_retrieve [OF 1] obtain args
    where 2: "?e \<in> set (fst (verify_retrieve env a key ?cfg args))"
      and s2: "snd (verify_arguments env a key ?cfg) = snd (verify_retrieve env a key ?cfg args)"
    by auto
  from retrieve_stage_empty [OF 2 assms(2)]
  have addr: "addr = address a"
    and s3: "snd (verify_retrieve env a key ?cfg args) =
            Inl (BuidlerPluginError (pluginName env)
                  (noBytecodeMessage (address a) (networkName env)) None)"
    by simp_all
  from assms(2) addr have r: "retrieveContractBytecode env (address a) = Inr None" by simp
  have late: "\<And>e. e \<in> set (fst (verify env a)) \<Longrightarrow> stageOf e < 3"
    using no_call_after_empty [OF r] .
  have "\<forall>bc. InferSolcVersion bc \<notin> set (fst (verify env a))"
    using late by fastforce
  moreover have "\<forall>v b. IsIncluded v b \<notin> set (fst (verify env a))"
    using late by fastforce
  moreover have "Compile \<notin> set (fst (verify env a))"
    using late [of Compile] by auto
  moreover have "\<forall>b ty. LookupMatchingBytecode b ty \<notin> set (fst (verify env a))"
    using late by fastforce
  ultimately show ?thesis
    using addr s1 s2 s3 no_bytecode_message_parts [of "address a" "networkName env"] by simp
qed

theorem absent_bytecode_is_rejected_witness:
  "RetrieveContractBytecode emptyAddress \<in> set (fst (verify sampleEnv emptyArgs)) \<and>
   retrieveContractBytecode sampleEnv emptyAddress = Inr None \<and>
   snd (verify sampleEnv emptyArgs) =
     Inl (BuidlerPluginError ''@nomiclabs/buidler-etherscan''
           (noBytecodeMessage emptyAddress ''ropsten'') None) \<and>
   sublist emptyAddress (noBytecodeMessage emptyAddress ''ropsten'') \<and>
   sublist ''ropsten'' (noBytecodeMessage emptyAddress ''ropsten'') \<and>
   (\<forall>bc. InferSolcVersion bc \<notin> set (fst (verify sampleEnv emptyArgs))) \<and>
   Compile \<notin> set (fst (verify sampleEnv emptyArgs)) \<and>
   (\<forall>b ty. LookupMatchingBytecode b ty \<notin> set (fst (verify sampleEnv emptyArgs)))"
proof -
  have h1: "RetrieveContractBytecode emptyAddress \<in> set (fst (verify sampleEnv emptyArgs))"
    by (simp add: run_empty)
  have h2: "retrieveContractBytecode sampleEnv emptyAddress = Inr None"
    by (simp add: sample_defs)
  have a: "address emptyArgs = emptyAddress" and n: "networkName sampleEnv = ''ropsten''"
    and p: "pluginName sampleEnv = ''@nomiclabs/buidler-etherscan''"
    by (simp_all add: sample_defs)
  from absent_bytecode_is_rejected [OF h1 h2] h1 h2 show ?thesis
    unfolding a n p by blast
qed

subsection \<open>Compilers that Etherscan does not support\<close>

text \<open>
  C9, as amended. When the API key is configured and not blank, the network is not
  \<^verbatim>\<open>buidlerevm\<close> and the address is valid, then for every configured version with major 0
  and either minor less than 4, or minor 4 and patch less than 11, \<^verbatim>\<open>verify\<close> raises the
  error "Etherscan only supports compiler versions 0.4.11 and higher" after the calls of
  the guards alone: no bytecode is retrieved, no version inferred, nothing matched.
\<close>

theorem old_compiler_is_rejected:
  assumes "apiKey env = Some key" and "trim key \<noteq> []"
      and "networkName env \<noteq> ''buidlerevm''"
      and "isAddress env (address a)"
      and "major (getVersionNumber env (solcVersionString env)) = 0"
      and "minor (getVersionNumber env (solcVersionString env)) < 4 \<or>
           minor (getVersionNumber env (solcVersionString env)) = 4 \<and>
           patch (getVersionNumber env (solcVersionString env)) < 11"
  shows "verify env a =
           ([GetDefaultEtherscanConfig, IsAddress (address a),
             GetVersionNumber (solcVersionString env)],
            Inl (BuidlerPluginError (pluginName env) unsupportedVersionMessage None)) \<and>
         prefix ''Etherscan only supports compiler versions 0.4.11 and higher''
           unsupportedVersionMessage \<and>
         (\<forall>s. RetrieveContractBytecode s \<notin> set (fst (verify env a))) \<and>
         (\<forall>bc. InferSolcVersion bc \<notin> set (fst (verify env a))) \<and>
         (\<forall>b ty. LookupMatchingBytecode b ty \<notin> set (fst (verify env a)))"
proof -
  have u: "unsupportedVersion (getVersionNumber env (solcVersionString env))"
    using assms(5,6) by (auto simp: unsupportedVersion_def)
  have run: "verify env a =
           ([GetDefaultEtherscanConfig, IsAddress (address a),
             GetVersionNumber (solcVersionString env)],
            Inl (BuidlerPluginError (pluginName env) unsupportedVersionMessage None))"
    using assms(1-4) u by (simp add: verify_def emit_def raise_def Let_def)
  have "prefix ''Etherscan only supports compiler versions 0.4.11 and higher''
           unsupportedVersionMessage"
    by (simp add: unsupportedVersionMessage_def)
  then show ?thesis by (simp add: run)
qed

theorem old_compiler_is_rejected_witness:
  "apiKey ancientCompilerEnv = Some ''KEY'' \<and> trim ''KEY'' \<noteq> [] \<and>
   networkName ancientCompilerEnv \<noteq> ''buidlerevm'' \<and>
   isAddress ancientCompilerEnv (address sampleArgs) \<and>
   getVersionNumber ancientCompilerEnv (solcVersionString ancientCompilerEnv) =
     \<lparr>major = 0, minor = 3, patch = 6\<rparr> \<and>
   verify ancientCompilerEnv sampleArgs =
     ([GetDefaultEtherscanConfig, IsAddress sampleAddress, GetVersionNumber ''0.3.6''],
      Inl (BuidlerPluginError ''@nomiclabs/buidler-etherscan'' unsupportedVersionMessage None)) \<and>
   (\<forall>s. RetrieveContractBytecode s \<notin> set (fst (verify ancientCompilerEnv sampleArgs)))"
proof -
  let ?cfg = "getVersionNumber ancientCompilerEnv (solcVersionString ancientCompilerEnv)"
  have h1: "apiKey ancientCompilerEnv = Some ''KEY''"
    and h2: "trim ''KEY'' \<noteq> []"
    and h3: "networkName ancientCompilerEnv \<noteq> ''buidlerevm''"
    and h4: "isAddress ancientCompilerEnv (address sampleArgs)"
    and v: "?cfg = \<lparr>major = 0, minor = 3, patch = 6\<rparr>"
    by (simp_all add: sample_defs trim_def isWhiteSpace_def)
  have h5: "major ?cfg = 0" and h6: "minor ?cfg < 4 \<or> minor ?cfg = 4 \<and> patch ?cfg < 11"
    by (simp_all add: v)
  have eqs: "address sampleArgs = sampleAddress" "solcVersionString ancientCompilerEnv = ''0.3.6''"
     "pluginName ancientCompilerEnv = ''@nomiclabs/buidler-etherscan''"
    by (simp_all add: sample_defs)
  from old_compiler_is_rejected [OF h1 h2 h3 h4 h5 h6] h1 h2 h3 h4 v
  show ?thesis unfolding eqs by blast
qed

text \<open>
  C9 as it is written fails when an earlier guard stops the run: with the compiler 0.3.6
  configured and no API key, \<^verbatim>\<open>verify\<close> raises the error of line 27, which asks for an
  API token, and not the error about the compiler version.
\<close>

theorem old_compiler_without_key_counterexample:
  "major (getVersionNumber noKeyEnv (solcVersionString noKeyEnv)) = 0 \<and>
   minor (getVersionNumber noKeyEnv (solcVersionString noKeyEnv)) < 4 \<and>
   verify noKeyEnv sampleArgs =
     ([GetDefaultEtherscanConfig],
      Inl (BuidlerPluginError ''@nomiclabs/buidler-etherscan'' apiKeyMessage None)) \<and>
   snd (verify noKeyEnv sampleArgs) \<noteq>
     Inl (BuidlerPluginError ''@nomiclabs/buidler-etherscan'' unsupportedVersionMessage None)"
proof -
  have "apiKeyMessage \<noteq> unsupportedVersionMessage"
    by (simp add: apiKeyMessage_def unsupportedVersionMessage_def)
  then show ?thesis
    by (simp add: run_no_key) (simp add: sample_defs)
qed

subsection \<open>End-to-end scenario 3\<close>

lemma infer_stage_bytecode:
  "InferSolcVersion b \<in> set (fst (verify_infer env a key cfg args bc)) \<Longrightarrow> b = bc"
  by (auto simp: verify_infer_def split: sum.splits if_splits dest: match_stage)

lemma infer_stage_excluded:
  assumes "inferSolcVersion env bc = Inr r" and "\<not> isIncluded env r cfg"
  shows "snd (verify_infer env a key cfg args bc) =
           Inl (BuidlerPluginError (pluginName env)
                 (versionMismatchMessage (solcVersionString env) (inferralType env r)
                    (rangeToString env r) (networkName env)) None)"
  using assms by (simp add: verify_infer_def)

text \<open>
  C3, as amended. With the configured compiler version 0.4.10, once the API key, the
  network and the address are accepted, \<^verbatim>\<open>verify\<close> raises the error "Etherscan only
  supports compiler versions 0.4.11 and higher" after the calls of the guards alone, so
  the bytecode is not retrieved and nothing is inferred or matched. The error of line 143
  is what a supported version outside the range gets: with the configured version 0.4.11
  and a run that infers the Exact version 0.5.0 from the bytecode, \<^verbatim>\<open>verify\<close> raises the
  error whose message reads "The expected version is ...", and no matching is attempted.
\<close>

theorem scenario3_old_and_supported_compiler:
  "(apiKey env = Some key \<and> trim key \<noteq> [] \<and> networkName env \<noteq> ''buidlerevm'' \<and>
    isAddress env (address a) \<and>
    getVersionNumber env (solcVersionString env) = \<lparr>major = 0, minor = 4, patch = 10\<rparr> \<longrightarrow>
      verify env a =
        ([GetDefaultEtherscanConfig, IsAddress (address a),
          GetVersionNumber (solcVersionString env)],
         Inl (BuidlerPluginError (pluginName env) unsupportedVersionMessage None))) \<and>
   (getVersionNumber env (solcVersionString env) = \<lparr>major = 0, minor = 4, patch = 11\<rparr> \<and>
    isIncluded env = isIncludedSpec \<and> inferralType env = rangeInferral \<and>
    InferSolcVersion bc \<in> set (fst (verify env a)) \<and> inferSolcVersion env bc = Inr r \<and>
    rangeInferral r = EXACT \<and> rangeLower r = \<lparr>major = 0, minor = 5, patch = 0\<rparr> \<longrightarrow>
      snd (verify env a) =
        Inl (BuidlerPluginError (pluginName env)
              (versionMismatchMessage (solcVersionString env) EXACT (rangeToString env r)
                 (networkName env)) None) \<and>
      sublist (''The expected version is '' @ rangeToString env r @ ''.'')
        (versionMismatchMessage (solcVersionString env) EXACT (rangeToString env r)
           (networkName env)) \<and>
      Compile \<notin> set (fst (verify env a)) \<and>
      (\<forall>b ty. LookupMatchingBytecode b ty \<notin> set (fst (verify env a))))"
proof (intro conjI impI)
  assume g: "apiKey env = Some key \<and> trim key \<noteq> [] \<and> networkName env \<noteq> ''buidlerevm'' \<and>
    isAddress env (address a) \<and>
    getVersionNumber env (solcVersionString env) = \<lparr>major = 0, minor = 4, patch = 10\<rparr>"
  then show "verify env a =
        ([GetDefaultEtherscanConfig, IsAddress (address a),
          GetVersionNumber (solcVersionString env)],
         Inl (BuidlerPluginError (pluginName env) unsupportedVersionMessage None))"
    by (simp add: verify_def emit_def raise_def Let_def unsupportedVersion_def)
next
  let ?cfg = "getVersionNumber env (solcVersionString env)"
  let ?e = "InferSolcVersion bc"
  let ?msg = "versionMismatchMessage (solcVersionString env) EXACT (rangeToString env r)
                (networkName env)"
  assume h: "?cfg = \<lparr>major = 0, minor = 4, patch = 11\<rparr> \<and>
    isIncluded env = isIncludedSpec \<and> inferralType env = rangeInferral \<and>
    ?e \<in> set (fst (verify env a)) \<and> inferSolcVersion env bc = Inr r \<and>
    rangeInferral r = EXACT \<and> rangeLower r = \<lparr>major = 0, minor = 5, patch = 0\<rparr>"
  then have e: "?e \<in> set (fst (verify env a))" and i: "inferSolcVersion env bc = Inr r"
    and ty: "inferralType env r = EXACT" by simp_all
  from h have n: "\<not> isIncluded env r ?cfg" by (simp add: range_defs)
  from reach_arguments [OF e] obtain key'
    where 1: "?e \<in> set (fst (verify_arguments env a key' ?cfg))"
      and s1: "snd (verify env a) = snd (verify_arguments env a key' ?cfg)" by auto
  from reach_retrieve [OF 1] obtain args
    where 2: "?e \<in> set (fst (verify_retrieve env a key' ?cfg args))"
      and s2: "snd (verify_arguments env a key' ?cfg) = snd (verify_retrieve env a key' ?cfg args)"
    by auto
  from reach_infer [OF 2] obtain bc'
    where r: "retrieveContractBytecode env (address a) = Inr (Some bc')"
      and 3: "?e \<in> set (fst (verify_infer env a key' ?cfg args bc'))"
      and s3: "snd (verify_retrieve env a key' ?cfg args) = snd (verify_infer env a key' ?cfg args bc')"
    by auto
  from infer_stage_bytecode [OF 3] r have r': "retrieveContractBytecode env (address a) = Inr (Some bc)"
    and s3': "snd (verify_retrieve env a key' ?cfg args) = snd (verify_infer env a key' ?cfg args bc)"
    using s3 by simp_all
  show "snd (verify env a) = Inl (BuidlerPluginError (pluginName env) ?msg None)"
    using s1 s2 s3' infer_stage_excluded [OF i n, of a key' args] ty by simp
  show "sublist (''The expected version is '' @ rangeToString env r @ ''.'') ?msg"
    using mismatch_message_context [of EXACT "rangeToString env r" "solcVersionString env" "networkName env"]
    by (simp add: detailedContext_def)
  have late: "\<And>e. e \<in> set (fst (verify env a)) \<Longrightarrow> stageOf e < 4"
    using no_late_call_after_mismatch [OF r' i n] .
  show "Compile \<notin> set (fst (verify env a))"
    using late [of Compile] by auto
  show "\<forall>b ty. LookupMatchingBytecode b ty \<notin> set (fst (verify env a))"
    using late by fastforce
qed

theorem scenario3_old_and_supported_compiler_witness:
  "apiKey oldCompilerEnv = Some ''KEY'' \<and> trim ''KEY'' \<noteq> [] \<and>
   networkName oldCompilerEnv \<noteq> ''buidlerevm'' \<and>
   isAddress oldCompilerEnv (address sampleArgs) \<and>
   getVersionNumber oldCompilerEnv (solcVersionString oldCompilerEnv) =
     \<lparr>major = 0, minor = 4, patch = 10\<rparr> \<and>
   verify oldCompilerEnv sampleArgs =
     ([GetDefaultEtherscanConfig, IsAddress sampleAddress, GetVersionNumber ''0.4.10''],
      Inl (BuidlerPluginError ''@nomiclabs/buidler-etherscan'' unsupportedVersionMessage None)) \<and>
   getVersionNumber mismatchEnv (solcVersionString mismatchEnv) =
     \<lparr>major = 0, minor = 4, patch = 11\<rparr> \<and>
   isIncluded mismatchEnv = isIncludedSpec \<and> inferralType mismatchEnv = rangeInferral \<and>
   InferSolcVersion sampleBytecode \<in> set (fst (verify mismatchEnv sampleArgs)) \<and>
   inferSolcVersion mismatchEnv sampleBytecode = Inr exactRange \<and>
   rangeInferral exactRange = EXACT \<and>
   rangeLower exactRange = \<lparr>major = 0, minor = 5, patch = 0\<rparr> \<and>
   snd (verify mismatchEnv sampleArgs) =
     Inl (BuidlerPluginError ''@nomiclabs/buidler-etherscan''
           (versionMismatchMessage ''0.4.11'' EXACT ''0.5.0'' ''ropsten'') None) \<and>
   sublist ''The expected version is 0.5.0.''
     (versionMismatchMessage ''0.4.11'' EXACT ''0.5.0'' ''ropsten'') \<and>
   Compile \<notin> set (fst (verify mismatchEnv sampleArgs)) \<and>
   (\<forall>b ty. LookupMatchingBytecode b ty \<notin> set (fst (verify mismatchEnv sampleArgs)))"
proof -
  have old: "apiKey oldCompilerEnv = Some ''KEY'' \<and> trim ''KEY'' \<noteq> [] \<and>
      networkName oldCompilerEnv \<noteq> ''buidlerevm'' \<and>
      isAddress oldCompilerEnv (address sampleArgs) \<and>
      getVersionNumber oldCompilerEnv (solcVersionString oldCompilerEnv) =
        \<lparr>major = 0, minor = 4, patch = 10\<rparr>"
    by (simp add: sample_defs trim_def isWhiteSpace_def)
  have new: "getVersionNumber mismatchEnv (solcVersionString mismatchEnv) =
        \<lparr>major = 0, minor = 4, patch = 11\<rparr> \<and>
      isIncluded mismatchEnv = isIncludedSpec \<and> inferralType mismatchEnv = rangeInferral \<and>
      InferSolcVersion sampleBytecode \<in> set (fst (verify mismatchEnv sampleArgs)) \<and>
      inferSolcVersion mismatchEnv sampleBytecode = Inr exactRange \<and>
      rangeInferral exactRange = EXACT \<and>
      rangeLower exactRange = \<lparr>major = 0, minor = 5, patch = 0\<rparr>"
    by (simp add: run_mismatch) (simp add: sample_defs)
  have eqs: "address sampleArgs = sampleAddress" "solcVersionString oldCompilerEnv = ''0.4.10''"
     "pluginName oldCompilerEnv = ''@nomiclabs/buidler-etherscan''"
     "pluginName mismatchEnv = ''@nomiclabs/buidler-etherscan''"
     "solcVersionString mismatchEnv = ''0.4.11''" "networkName mismatchEnv = ''ropsten''"
     "rangeToString mismatchEnv exactRange = ''0.5.0''"
    by (simp_all add: sample_defs)
  from scenario3_old_and_supported_compiler
         [of oldCompilerEnv "''KEY''" sampleArgs sampleBytecode exactRange] old
  have 1: "verify oldCompilerEnv sampleArgs =
     ([GetDefaultEtherscanConfig, IsAddress sampleAddress, GetVersionNumber ''0.4.10''],
      Inl (BuidlerPluginError ''@nomiclabs/buidler-etherscan'' unsupportedVersionMessage None))"
    unfolding eqs by blast
  from scenario3_old_and_supported_compiler
         [of mismatchEnv "''KEY''" sampleArgs sampleBytecode exactRange] new
  have 2: "snd (verify mismatchEnv sampleArgs) =
     Inl (BuidlerPluginError ''@nomiclabs/buidler-etherscan''
           (versionMismatchMessage ''0.4.11'' EXACT ''0.5.0'' ''ropsten'') None) \<and>
   sublist (''The expected version is '' @ ''0.5.0'' @ ''.'')
     (versionMismatchMessage ''0.4.11'' EXACT ''0.5.0'' ''ropsten'') \<and>
   Compile \<notin> set (fst (verify mismatchEnv sampleArgs)) \<and>
   (\<forall>b ty. LookupMatchingBytecode b ty \<notin> set (fst (verify mismatchEnv sampleArgs)))"
    unfolding eqs by blast
  from 2 have 3: "sublist ''The expected version is 0.5.0.''
     (versionMismatchMessage ''0.4.11'' EXACT ''0.5.0'' ''ropsten'')" by simp
  from old new 1 2 3 show ?thesis by blast
qed

text \<open>
  C3 as it is written fails: with the configured version 0.4.10 and a bytecode whose
  inferred version is the Exact 0.5.0, the run stops at the guard of lines 59-70 and the
  error is not the one of line 143.
\<close>

theorem scenario3_counterexample:
  "getVersionNumber oldCompilerEnv (solcVersionString oldCompilerEnv) =
     \<lparr>major = 0, minor = 4, patch = 10\<rparr> \<and>
   retrieveContractBytecode oldCompilerEnv (address sampleArgs) = Inr (Some sampleBytecode) \<and>
   inferSolcVersion oldCompilerEnv sampleBytecode = Inr exactRange \<and>
   rangeInferral exactRange = EXACT \<and>
   rangeLower exactRange = \<lparr>major = 0, minor = 5, patch = 0\<rparr> \<and>
   verify oldCompilerEnv sampleArgs =
     ([GetDefaultEtherscanConfig, IsAddress sampleAddress, GetVersionNumber ''0.4.10''],
      Inl (BuidlerPluginError ''@nomiclabs/buidler-etherscan'' unsupportedVersionMessage None)) \<and>
   snd (verify oldCompilerEnv sampleArgs) \<noteq>
     Inl (BuidlerPluginError ''@nomiclabs/buidler-etherscan''
           (versionMismatchMessage ''0.4.10'' EXACT ''0.5.0'' ''ropsten'') None)"
proof -
  have "unsupportedVersionMessage \<noteq> versionMismatchMessage ''0.4.10'' EXACT ''0.5.0'' ''ropsten''"
    by (simp add: unsupportedVersionMessage_def versionMismatchMessage_def)
  then show ?thesis
    by (simp add: run_old) (simp add: sample_defs)
qed

subsection \<open>The libraries of the match in the compiler input\<close>

text \<open>
  C8. On every successful match (the run looked the bytecode up and the lookup returned a
  contract), the only compiler input the run serializes is the compiled project's input
  with \<^verbatim>\<open>settings.libraries\<close> set to exactly the library links of the match; the source
  code of every request the run builds is that serialization, made before the request;
  and the serialization takes place whenever the constructor arguments encode.
\<close>

theorem libraries_set_before_serialization:
  assumes c: "compile env = Inr (ci, co)"
      and l: "LookupMatchingBytecode bc ty \<in> set (fst (verify env a))"
      and f: "lookupMatchingBytecode env (contracts co) bc ty = Inr (Some info)"
  shows "settings_libraries (ci\<lparr>settings_libraries := libraryLinks info\<rparr>) = libraryLinks info \<and>
         (\<forall>x. JSONStringify x \<in> set (fst (verify env a)) \<longrightarrow>
            x = ci\<lparr>settings_libraries := libraryLinks info\<rparr>) \<and>
         (\<forall>rp. ToRequest rp \<in> set (fst (verify env a)) \<longrightarrow>
            req_sourceCode rp = jsonStringify env (ci\<lparr>settings_libraries := libraryLinks info\<rparr>) \<and>
            (\<exists>pre post. fst (verify env a) =
                 pre @ JSONStringify (ci\<lparr>settings_libraries := libraryLinks info\<rparr>) # post \<and>
               ToRequest rp \<in> set post)) \<and>
         (\<forall>i xs enc. EncodeDeploy i xs \<in> set (fst (verify env a)) \<longrightarrow>
            encodeDeploy env i xs = Inr enc \<longrightarrow>
            JSONStringify (ci\<lparr>settings_libraries := libraryLinks info\<rparr>) \<in> set (fst (verify env a)))"
proof -
  let ?cfg = "getVersionNumber env (solcVersionString env)"
  let ?ci = "ci\<lparr>settings_libraries := libraryLinks info\<rparr>"
  from lookup_call [OF l] obtain r
    where r: "retrieveContractBytecode env (address a) = Inr (Some bc)"
      and i: "inferSolcVersion env bc = Inr r" and ty: "ty = inferralType env r" by auto
  have late: "\<exists>key enc rest. fst (verify_submit env a key ?cfg ci info enc) = JSONStringify ?ci # rest \<and>
                e \<in> set (JSONStringify ?ci # rest) \<and>
                (\<forall>x. JSONStringify x \<notin> set rest) \<and>
                (\<forall>rp. ToRequest rp \<in> set rest \<longrightarrow> req_sourceCode rp = jsonStringify env ?ci) \<and>
                suffix (JSONStringify ?ci # rest) (fst (verify env a))"
    if e: "e \<in> set (fst (verify env a))" and s: "6 \<le> stageOf e" for e
  proof -
    from reach_submit_full [OF e s] obtain key args bc' r' ci' co' info' enc
      where "retrieveContractBytecode env (address a) = Inr (Some bc')"
        and "inferSolcVersion env bc' = Inr r'"
        and "compile env = Inr (ci', co')"
        and l': "lookupMatchingBytecode env (contracts co') bc' (inferralType env r') = Inr (Some info')"
        and 6: "e \<in> set (fst (verify_submit env a key ?cfg ci' info' enc))"
        and p: "suffix (fst (verify_submit env a key ?cfg ci' info' enc)) (fst (verify env a))"
      by blast
    with r i c have eqs: "bc' = bc" "r' = r" "ci' = ci" "co' = co" by simp_all
    from l' f ty have info: "info' = info" by (simp add: eqs)
    from submit_stage_calls [of env a key ?cfg ci info enc] obtain rest
      where "fst (verify_submit env a key ?cfg ci info enc) = JSONStringify ?ci # rest"
        and "\<forall>x. JSONStringify x \<notin> set rest"
        and "\<forall>rp. ToRequest rp \<in> set rest \<longrightarrow> req_sourceCode rp = jsonStringify env ?ci"
      by blast
    with 6 p show ?thesis unfolding eqs info by auto
  qed
  have 1: "\<forall>x. JSONStringify x \<in> set (fst (verify env a)) \<longrightarrow> x = ?ci"
  proof (intro allI impI)
    fix x assume "JSONStringify x \<in> set (fst (verify env a))"
    from late [OF this] show "x = ?ci" by auto
  qed
  have 2: "\<forall>rp. ToRequest rp \<in> set (fst (verify env a)) \<longrightarrow>
            req_sourceCode rp = jsonStringify env ?ci \<and>
            (\<exists>pre post. fst (verify env a) = pre @ JSONStringify ?ci # post \<and> ToRequest rp \<in> set post)"
  proof (intro allI impI)
    fix rp assume "ToRequest rp \<in> set (fst (verify env a))"
    from late [OF this] obtain rest
      where m: "ToRequest rp \<in> set rest"
        and q: "\<forall>rp. ToRequest rp \<in> set rest \<longrightarrow> req_sourceCode rp = jsonStringify env ?ci"
        and p: "suffix (JSONStringify ?ci # rest) (fst (verify env a))" by auto
    from p obtain pre where "fst (verify env a) = pre @ JSONStringify ?ci # rest"
      by (auto simp: suffix_def)
    with m q show "req_sourceCode rp = jsonStringify env ?ci \<and>
            (\<exists>pre post. fst (verify env a) = pre @ JSONStringify ?ci # post \<and> ToRequest rp \<in> set post)"
      by blast
  qed
  have 3: "\<forall>i xs enc. EncodeDeploy i xs \<in> set (fst (verify env a)) \<longrightarrow>
            encodeDeploy env i xs = Inr enc \<longrightarrow> JSONStringify ?ci \<in> set (fst (verify env a))"
  proof (intro allI impI)
    fix i xs enc
    assume e: "EncodeDeploy i xs \<in> set (fst (verify env a))" and d: "encodeDeploy env i xs = Inr enc"
    from reach_encode_full [OF e] obtain key args bc' r' ci' co' info'
      where "retrieveContractBytecode env (address a) = Inr (Some bc')"
        and "inferSolcVersion env bc' = Inr r'"
        and "compile env = Inr (ci', co')"
        and l': "lookupMatchingBytecode env (contracts co') bc' (inferralType env r') = Inr (Some info')"
        and 5: "EncodeDeploy i xs \<in> set (fst (verify_encode env a key ?cfg args ci' info'))"
        and p: "suffix (fst (verify_encode env a key ?cfg args ci' info')) (fst (verify env a))"
      by auto
    with r i c have eqs: "bc' = bc" "r' = r" "ci' = ci" "co' = co" by simp_all
    from l' f ty have info: "info' = info" by (simp add: eqs)
    from encode_stage_call [OF 5] d
    have "newInterface env (abi (contract info)) = Inr i" and "encodeDeploy env i args = Inr enc"
      by (simp_all add: info)
    from encode_stage_encoded [OF this, of a key ?cfg ci]
      submit_stage_calls [of env a key ?cfg ci info enc]
    have "JSONStringify ?ci \<in> set (fst (verify_encode env a key ?cfg args ci info))" by auto
    with p show "JSONStringify ?ci \<in> set (fst (verify env a))"
      unfolding eqs info using set_mono_suffix by blast
  qed
  from 1 2 3 show ?thesis by simp
qed

theorem libraries_set_before_serialization_witness:
  "compile linkedEnv = Inr (sampleInput, \<lparr>contracts = [sampleArtifact, linkedArtifact]\<rparr>) \<and>
   LookupMatchingBytecode linkedBytecode EXACT \<in> set (fst (verify linkedEnv sampleArgs)) \<and>
   lookupMatchingBytecode linkedEnv
     (contracts \<lparr>contracts = [sampleArtifact, linkedArtifact]\<rparr>) linkedBytecode EXACT =
     Inr (Some linkedInformation) \<and>
   libraryLinks linkedInformation = [(''contracts/Lib.sol:Lib'', libraryAddress)] \<and>
   JSONStringify (sampleInput\<lparr>settings_libraries := [(''contracts/Lib.sol:Lib'', libraryAddress)]\<rparr>)
     \<in> set (fst (verify linkedEnv sampleArgs)) \<and>
   JSONStringify sampleInput \<notin> set (fst (verify linkedEnv sampleArgs)) \<and>
   EncodeDeploy (Interface sampleAbi) [''7''] \<in> set (fst (verify linkedEnv sampleArgs)) \<and>
   encodeDeploy linkedEnv (Interface sampleAbi) [''7''] = Inr sampleEncoded"
proof -
  let ?co = "\<lparr>contracts = [sampleArtifact, linkedArtifact]\<rparr>"
  have h1: "compile linkedEnv = Inr (sampleInput, ?co)"
    by (simp add: linkedEnv_def sampleEnv_def)
  have h2: "LookupMatchingBytecode linkedBytecode EXACT \<in> set (fst (verify linkedEnv sampleArgs))"
    by (simp add: run_linked)
  have h3: "lookupMatchingBytecode linkedEnv (contracts ?co) linkedBytecode EXACT =
              Inr (Some linkedInformation)"
    using lookup_linked by (simp add: linkedEnv_def sampleEnv_def)
  have h4: "EncodeDeploy (Interface sampleAbi) [''7''] \<in> set (fst (verify linkedEnv sampleArgs))"
    by (simp add: run_linked)
  have h5: "encodeDeploy linkedEnv (Interface sampleAbi) [''7''] = Inr sampleEncoded"
    by (simp add: linkedEnv_def sampleEnv_def sampleEncode_def)
  have links: "libraryLinks linkedInformation = [(''contracts/Lib.sol:Lib'', libraryAddress)]"
    by (simp add: linkedInformation_def)
  have stale: "sampleInput \<noteq> sampleInput\<lparr>settings_libraries := libraryLinks linkedInformation\<rparr>"
    by (simp add: sampleInput_def links)
  note t = libraries_set_before_serialization [OF h1 h2 h3]
  from t h4 h5
  have 1: "JSONStringify (sampleInput\<lparr>settings_libraries := libraryLinks linkedInformation\<rparr>)
            \<in> set (fst (verify linkedEnv sampleArgs))" by blast
  from t stale
  have 2: "JSONStringify sampleInput \<notin> set (fst (verify linkedEnv sampleArgs))" by blast
  from h1 h2 h3 h4 h5 links 1 2 show ?thesis by simp
qed

subsection \<open>The request is built and not sent\<close>

text \<open>No run issues the two calls to the Etherscan service.\<close>

lemma verify_never_submits:
  "VerifyContract rp \<notin> set (fst (verify env a)) \<and>
   GetVerificationStatus \<notin> set (fst (verify env a))"
  using verify_stage [of "VerifyContract rp" env a] verify_stage [of GetVerificationStatus env a]
  by auto

text \<open>
  C2. The claim is that, once a matching artifact is found and the constructor arguments
  encode, the request is submitted to the verification service before success is
  reported. The run of the sample project finds the contract, encodes the arguments,
  builds the request from the API key, the address, the serialized compiler input, the
  contract name, the long compiler version and the encoded arguments, and prints both
  messages of success; it calls neither \<^verbatim>\<open>verifyContract\<close> nor
  \<^verbatim>\<open>getVerificationStatus\<close>.
\<close>

theorem success_reported_without_submission:
  "verify sampleEnv sampleArgs =
     ([GetDefaultEtherscanConfig, IsAddress sampleAddress, GetVersionNumber ''0.5.0'',
       GetEtherscanEndpoint, RetrieveContractBytecode sampleAddress,
       InferSolcVersion sampleBytecode,
       IsIncluded \<lparr>major = 0, minor = 5, patch = 0\<rparr> True,
       Compile, LookupMatchingBytecode sampleBytecode EXACT,
       NewInterface sampleAbi, EncodeDeploy (Interface sampleAbi) [''7''],
       JSONStringify (sampleInput\<lparr>settings_libraries := []\<rparr>),
       GetLongVersion \<lparr>major = 0, minor = 5, patch = 0\<rparr>,
       ToRequest \<lparr>req_apiKey = ''KEY'', req_contractAddress = sampleAddress,
                  req_sourceCode = ''{language: Solidity}'', req_contractName = ''Token'',
                  req_compilerVersion = ''v0.5.0+commit.1d4f565a'',
                  req_constructorArguments = sampleEncoded\<rparr>,
       ConsoleLog (submittedMessage sampleAddress),
       ConsoleLog verifiedMessage],
      Inr ()) \<and>
   (\<forall>rp. VerifyContract rp \<notin> set (fst (verify sampleEnv sampleArgs))) \<and>
   GetVerificationStatus \<notin> set (fst (verify sampleEnv sampleArgs))"
  using run_sample verify_never_submits [of _ sampleEnv sampleArgs] by blast

subsection \<open>Constructor arguments from a module\<close>

text \<open>The stages from the network on read the address and nothing else of the arguments.\<close>

lemma submit_ignores_list:
  "verify_submit env (a\<lparr>constructorArguments := xs\<rparr>) key cfg ci info enc =
   verify_submit env a key cfg ci info enc"
  by (simp add: verify_submit_def Let_def split: sum.splits)

lemma encode_ignores_list:
  "verify_encode env (a\<lparr>constructorArguments := xs\<rparr>) key cfg args ci info =
   verify_encode env a key cfg args ci info"
  by (simp add: verify_encode_def submit_ignores_list split: sum.splits error.splits)

lemma match_ignores_list:
  "verify_match env (a\<lparr>constructorArguments := xs\<rparr>) key cfg args bc r =
   verify_match env a key cfg args bc r"
  by (simp add: verify_match_def encode_ignores_list split: sum.splits option.splits prod.splits)

lemma infer_ignores_list:
  "verify_infer env (a\<lparr>constructorArguments := xs\<rparr>) key cfg args bc =
   verify_infer env a key cfg args bc"
  by (simp add: verify_infer_def match_ignores_list split: sum.splits)

lemma retrieve_ignores_list:
  "verify_retrieve env (a\<lparr>constructorArguments := xs\<rparr>) key cfg args =
   verify_retrieve env a key cfg args"
  by (simp add: verify_retrieve_def infer_ignores_list split: sum.splits option.splits error.splits)

lemma arguments_ignores_list:
  "constructorArgs a = Some m \<Longrightarrow>
   verify_arguments env (a\<lparr>constructorArguments := xs\<rparr>) key cfg = verify_arguments env a key cfg"
  by (simp add: verify_arguments_def retrieve_ignores_list split: sum.splits)

lemma verify_ignores_list:
  "constructorArgs a = Some m \<Longrightarrow> verify env (a\<lparr>constructorArguments := xs\<rparr>) = verify env a"
  by (simp add: verify_def arguments_ignores_list Let_def split: option.splits)

text \<open>
  What the import resolves to is never an array, so the body of the \<^verbatim>\<open>try\<close> block never
  yields a list: a run with a module path ends at the import or before it.
\<close>

lemma import_never_yields_list: "importConstructorArguments env m \<noteq> Inr xs"
  by (simp add: importConstructorArguments_def dynamicImport_def split: sum.splits)

lemma module_path_stops_at_import:
  assumes m: "constructorArgs a = Some m" and e: "e \<in> set (fst (verify env a))"
  shows "stageOf e \<le> 1"
proof (rule ccontr)
  assume "\<not> stageOf e \<le> 1"
  then have s: "2 \<le> stageOf e" by simp
  from reach_arguments [OF e] s obtain key
    where 1: "e \<in> set (fst (verify_arguments env a key
                (getVersionNumber env (solcVersionString env))))" by auto
  from reach_retrieve [OF 1 s] m show False by auto
qed

lemma module_path_raises:
  assumes "constructorArgs a = Some m"
  shows "(\<exists>err. snd (verify env a) = Inl err) \<and>
         (\<forall>i xs. EncodeDeploy i xs \<notin> set (fst (verify env a)))"
proof -
  have early: "\<And>e. e \<in> set (fst (verify env a)) \<Longrightarrow> stageOf e \<le> 1"
    using module_path_stops_at_import [OF assms] .
  have "ConsoleLog verifiedMessage \<notin> set (fst (verify env a))"
    using early [of "ConsoleLog verifiedMessage"] by auto
  then have "\<exists>err. snd (verify env a) = Inl err"
    using verify_error_or_logged [of env a] by simp
  moreover have "\<forall>i xs. EncodeDeploy i xs \<notin> set (fst (verify env a))"
    using early by fastforce
  ultimately show ?thesis by simp
qed

lemma module_exports_refused:
  assumes e: "ImportModule m' \<in> set (fst (verify env a))"
      and m: "constructorArgs a = Some m"
      and x: "moduleExports env m = Inr exported"
  shows "snd (verify env a) =
           Inl (BuidlerPluginError (pluginName env) importFailedMessage
                 (Some (BuidlerPluginError (pluginName env) notAListMessage None)))"
proof -
  from reach_arguments [OF e] obtain key
    where s1: "snd (verify env a) =
                 snd (verify_arguments env a key (getVersionNumber env (solcVersionString env)))"
    by auto
  show ?thesis
    using m x
    by (simp add: s1 verify_arguments_def importConstructorArguments_def dynamicImport_def)
qed

text \<open>
  C10. The claim is that with a module path the positional list is ignored and the value
  the module exports is used instead, and that a failed import or an export that is not an
  array raises an error. The positional list is ignored and the errors are raised, but no
  exported value is ever used: line 76 tests \<^verbatim>\<open>Array.isArray\<close> on what the import
  resolved to, which is not the exported list. The run with the module
  \<^verbatim>\<open>arguments.js\<close>, which exports a list as the message of line 79 asks, raises the error
  of line 84 around the error of line 77, right after the import, and encodes nothing.
\<close>

theorem exported_list_is_refused:
  "constructorArgs (moduleArgs ''./arguments.js'') = Some ''./arguments.js'' \<and>
   moduleExports sampleEnv ''./arguments.js'' = Inr (ExportsArray [''7'']) \<and>
   verify sampleEnv (moduleArgs ''./arguments.js'') =
     ([GetDefaultEtherscanConfig, IsAddress sampleAddress, GetVersionNumber ''0.5.0'',
       ImportModule ''./arguments.js''],
      Inl (BuidlerPluginError ''@nomiclabs/buidler-etherscan'' importFailedMessage
            (Some (BuidlerPluginError ''@nomiclabs/buidler-etherscan'' notAListMessage None)))) \<and>
   (\<forall>i xs. EncodeDeploy i xs \<notin> set (fst (verify sampleEnv (moduleArgs ''./arguments.js''))))"
proof -
  have m: "constructorArgs (moduleArgs ''./arguments.js'') = Some ''./arguments.js''"
    by (simp add: moduleArgs_def)
  have x: "moduleExports sampleEnv ''./arguments.js'' = Inr (ExportsArray [''7''])"
    by (simp add: sampleEnv_def sampleModule_def)
  from m x run_module_list module_path_raises [OF m, of sampleEnv] show ?thesis by blast
qed

section \<open>The matcher of the specification\<close>

subsection \<open>The loop collects the candidates that compare equal\<close>

lemma collectMatches_filter:
  "collectMatches locate ty deployed cs found =
     rev found @ filter (matchesDeployed locate ty deployed) cs"
  by (induction cs arbitrary: found) simp_all

lemma length_zeroSpan: "length (zeroSpan s bs) = length bs"
  by (simp add: zeroSpan_def)

lemma length_fold_zeroSpan: "length (fold zeroSpan spans bs) = length bs"
  by (induction spans arbitrary: bs) (simp_all add: length_zeroSpan)

lemma length_normalize: "length (normalize locate ty spans bs) = length bs"
  by (simp add: normalize_def Let_def length_fold_zeroSpan length_zeroSpan split: option.splits)

lemma matchesDeployed_iff:
  "matchesDeployed locate ty deployed c = sameNormalized locate ty deployed c"
proof
  assume "matchesDeployed locate ty deployed c"
  then show "sameNormalized locate ty deployed c" by (simp add: matchesDeployed_def)
next
  assume s: "sameNormalized locate ty deployed c"
  then have "length (normalize locate ty (placeholderSpans c) (deployedBytecode c)) =
             length (normalize locate ty (placeholderSpans c) deployed)" by simp
  then have "length (deployedBytecode c) = length deployed" by (simp add: length_normalize)
  with s show "matchesDeployed locate ty deployed c" by (simp add: matchesDeployed_def)
qed

lemma filter_two:
  assumes "i < j" and "j < length xs" and "P (xs ! i)" and "P (xs ! j)"
  shows "\<exists>x y zs. filter P xs = x # y # zs"
proof -
  have split: "xs = take j xs @ xs ! j # drop (Suc j) xs"
    using assms(2) by (simp add: id_take_nth_drop)
  have "xs ! i \<in> set (take j xs)"
    using assms(1,2) by (metis in_set_conv_nth length_take min.absorb2 nth_take less_imp_le_nat)
  with assms(3) have "filter P (take j xs) \<noteq> []"
    by (auto simp: filter_empty_conv)
  then obtain x ys where 1: "filter P (take j xs) = x # ys" by (cases "filter P (take j xs)") auto
  have "filter P xs = filter P (take j xs) @ filter P (xs ! j # drop (Suc j) xs)"
    by (subst split) simp
  with 1 assms(4) show ?thesis by (cases ys) auto
qed

subsection \<open>More than one match\<close>

text \<open>
  C4. Whenever more than one compiled artifact's normalized bytecode equals the normalized
  deployed bytecode (two candidates at different positions do), matching raises the
  ambiguous-match error, and the error lists the contract name of every matching
  candidate, in the order of the compiler output; the matcher returns no candidate.
\<close>

theorem ambiguous_match_names_all_candidates:
  assumes "i < j" and "j < length artifacts"
      and "sameNormalized locate ty deployed (artifacts ! i)"
      and "sameNormalized locate ty deployed (artifacts ! j)"
  shows "lookupMatchingBytecodeSpec locate artifacts deployed ty =
           Inl (AmbiguousArtifactMatch
                 (map artifactName (filter (sameNormalized locate ty deployed) artifacts))) \<and>
         artifactName (artifacts ! i)
           \<in> set (map artifactName (filter (sameNormalized locate ty deployed) artifacts)) \<and>
         artifactName (artifacts ! j)
           \<in> set (map artifactName (filter (sameNormalized locate ty deployed) artifacts)) \<and>
         (\<forall>info. lookupMatchingBytecodeSpec locate artifacts deployed ty \<noteq> Inr (Some info))"
proof -
  let ?P = "sameNormalized locate ty deployed"
  have c: "collectMatches locate ty deployed artifacts [] = filter ?P artifacts"
    by (simp add: collectMatches_filter matchesDeployed_iff [abs_def])
  from filter_two [of i j artifacts ?P, OF assms] obtain x y zs
    where f: "filter ?P artifacts = x # y # zs" by blast
  have r: "lookupMatchingBytecodeSpec locate artifacts deployed ty =
           Inl (AmbiguousArtifactMatch (map artifactName (filter ?P artifacts)))"
    unfolding lookupMatchingBytecodeSpec_def c by (simp add: f)
  have "artifacts ! i \<in> set (filter ?P artifacts)" "artifacts ! j \<in> set (filter ?P artifacts)"
    using assms by simp_all
  then have "artifactName (artifacts ! i) \<in> set (map artifactName (filter ?P artifacts))"
    and "artifactName (artifacts ! j) \<in> set (map artifactName (filter ?P artifacts))"
    by (simp_all del: set_filter)
  with r show ?thesis by simp
qed

theorem ambiguous_match_names_all_candidates_witness:
  "(0::nat) < 2 \<and> 2 < length [sampleArtifact, linkedArtifact, duplicateArtifact] \<and>
   sameNormalized (\<lambda>bs. None) EXACT sampleBytecode
     ([sampleArtifact, linkedArtifact, duplicateArtifact] ! 0) \<and>
   sameNormalized (\<lambda>bs. None) EXACT sampleBytecode
     ([sampleArtifact, linkedArtifact, duplicateArtifact] ! 2) \<and>
   lookupMatchingBytecodeSpec (\<lambda>bs. None) [sampleArtifact, linkedArtifact, duplicateArtifact]
     sampleBytecode EXACT = Inl (AmbiguousArtifactMatch [''Token'', ''TokenCopy''])"
proof -
  let ?cs = "[sampleArtifact, linkedArtifact, duplicateArtifact]"
  have h1: "(0::nat) < 2" and h2: "2 < length ?cs" by simp_all
  have h3: "sameNormalized (\<lambda>bs. None) EXACT sampleBytecode (?cs ! 0)"
    by (simp add: normalize_def placeholderSpans_def sample_defs)
  have h4: "sameNormalized (\<lambda>bs. None) EXACT sampleBytecode (?cs ! 2)"
    by (simp add: normalize_def placeholderSpans_def sample_defs)
  have f: "map artifactName (filter (sameNormalized (\<lambda>bs. None) EXACT sampleBytecode) ?cs) =
             [''Token'', ''TokenCopy'']"
    by (simp add: normalize_def placeholderSpans_def zeroSpan_def sample_defs)
  from ambiguous_match_names_all_candidates [OF h1 h2 h3 h4] h1 h2 h3 h4
  show ?thesis unfolding f by blast
qed

subsection \<open>No match\<close>

lemma no_match_no_result:
  assumes "\<forall>c \<in> set artifacts. \<not> sameNormalized locate ty deployed c"
  shows "lookupMatchingBytecodeSpec locate artifacts deployed ty = Inr None"
proof -
  have "filter (matchesDeployed locate ty deployed) artifacts = []"
    using assms by (simp add: filter_empty_conv matchesDeployed_iff)
  then show ?thesis
    by (simp add: lookupMatchingBytecodeSpec_def collectMatches_filter)
qed

lemma match_stage_not_found:
  assumes "compile env = Inr (ci, co)"
      and "lookupMatchingBytecode env (contracts co) bc (inferralType env r) = Inr None"
  shows "verify_match env a key cfg args bc r =
           ([Compile, LookupMatchingBytecode bc (inferralType env r)],
            Inl (BuidlerPluginError (pluginName env) (notFoundMessage (networkName env)) None))"
  using assms by (simp add: verify_match_def emit_def raise_def)

text \<open>
  C5. If no candidate artifact's normalized bytecode equals the normalized deployed
  bytecode, the lookup returns no result (neither a contract nor an error), and a run of
  \<^verbatim>\<open>verify\<close> that makes this lookup raises the error of line 162, whose message names
  the selected network and the possible causes, a wrong address and a wrong network; the
  run goes on to no encoding and builds no request.
\<close>

theorem no_match_is_reported:
  assumes m: "lookupMatchingBytecode env = lookupMatchingBytecodeSpec locate"
      and c: "compile env = Inr (ci, co)"
      and l: "LookupMatchingBytecode bc ty \<in> set (fst (verify env a))"
      and n: "\<forall>c \<in> set (contracts co). \<not> sameNormalized locate ty bc c"
  shows "lookupMatchingBytecodeSpec locate (contracts co) bc ty = Inr None \<and>
         snd (verify env a) =
           Inl (BuidlerPluginError (pluginName env) (notFoundMessage (networkName env)) None) \<and>
         sublist (networkName env) (notFoundMessage (networkName env)) \<and>
         sublist ''Wrong address for contract'' (notFoundMessage (networkName env)) \<and>
         sublist ''Wrong network selected'' (notFoundMessage (networkName env)) \<and>
         (\<forall>i xs. EncodeDeploy i xs \<notin> set (fst (verify env a))) \<and>
         (\<forall>rp. ToRequest rp \<notin> set (fst (verify env a)))"
proof -
  let ?cfg = "getVersionNumber env (solcVersionString env)"
  have none: "lookupMatchingBytecodeSpec locate (contracts co) bc ty = Inr None"
    using n by (rule no_match_no_result)
  from reach_match_full [OF l] obtain key args bc' r
    where r: "retrieveContractBytecode env (address a) = Inr (Some bc')"
      and i: "inferSolcVersion env bc' = Inr r"
      and 4: "LookupMatchingBytecode bc ty \<in> set (fst (verify_match env a key ?cfg args bc' r))"
      and s: "snd (verify env a) = snd (verify_match env a key ?cfg args bc' r)"
    by auto
  from match_stage_lookup [OF 4] have b: "bc' = bc" and ty: "ty = inferralType env r" by simp_all
  from none m ty
  have none': "lookupMatchingBytecode env (contracts co) bc (inferralType env r) = Inr None" by simp
  have res: "snd (verify env a) =
           Inl (BuidlerPluginError (pluginName env) (notFoundMessage (networkName env)) None)"
    using s match_stage_not_found [OF c none', of a key ?cfg args] by (simp add: b)
  have late: "stageOf e < 5" if e: "e \<in> set (fst (verify env a))" for e
  proof (rule ccontr)
    assume "\<not> stageOf e < 5"
    then have "5 \<le> stageOf e" by simp
    from reach_encode_full [OF e this] obtain bc2 r2 ci2 co2 info
      where "retrieveContractBytecode env (address a) = Inr (Some bc2)"
        and "inferSolcVersion env bc2 = Inr r2"
        and "compile env = Inr (ci2, co2)"
        and f: "lookupMatchingBytecode env (contracts co2) bc2 (inferralType env r2) = Inr (Some info)"
      by auto
    with r i c b have "bc2 = bc" "r2 = r" "co2 = co" by simp_all
    with f none' show False by simp
  qed
  have "\<forall>i xs. EncodeDeploy i xs \<notin> set (fst (verify env a))"
    using late by fastforce
  moreover have "\<forall>rp. ToRequest rp \<notin> set (fst (verify env a))"
    using late by fastforce
  ultimately show ?thesis
    using none res not_found_message_parts [of "networkName env"] by simp
qed

theorem no_match_is_reported_witness:
  "lookupMatchingBytecode strangerEnv = lookupMatchingBytecodeSpec (\<lambda>bs. None) \<and>
   compile strangerEnv = Inr (sampleInput, \<lparr>contracts = [sampleArtifact, linkedArtifact]\<rparr>) \<and>
   LookupMatchingBytecode foreignBytecode EXACT \<in> set (fst (verify strangerEnv sampleArgs)) \<and>
   \<not> sameNormalized (\<lambda>bs. None) EXACT foreignBytecode sampleArtifact \<and>
   \<not> sameNormalized (\<lambda>bs. None) EXACT foreignBytecode linkedArtifact \<and>
   lookupMatchingBytecodeSpec (\<lambda>bs. None) [sampleArtifact, linkedArtifact] foreignBytecode EXACT =
     Inr None \<and>
   snd (verify strangerEnv sampleArgs) =
     Inl (BuidlerPluginError ''@nomiclabs/buidler-etherscan'' (notFoundMessage ''ropsten'') None) \<and>
   sublist ''ropsten'' (notFoundMessage ''ropsten'')"
proof -
  let ?co = "\<lparr>contracts = [sampleArtifact, linkedArtifact]\<rparr>"
  have h1: "lookupMatchingBytecode strangerEnv = lookupMatchingBytecodeSpec (\<lambda>bs. None)"
    and h2: "compile strangerEnv = Inr (sampleInput, ?co)"
    by (simp_all add: strangerEnv_def sampleEnv_def)
  have h3: "LookupMatchingBytecode foreignBytecode EXACT \<in> set (fst (verify strangerEnv sampleArgs))"
    by (simp add: run_stranger)
  have n1: "\<not> sameNormalized (\<lambda>bs. None) EXACT foreignBytecode sampleArtifact"
    and n2: "\<not> sameNormalized (\<lambda>bs. None) EXACT foreignBytecode linkedArtifact"
    by (simp_all add: normalize_def placeholderSpans_def zeroSpan_def sample_defs)
  have h4: "\<forall>c \<in> set (contracts ?co). \<not> sameNormalized (\<lambda>bs. None) EXACT foreignBytecode c"
    using n1 n2 by simp
  have eqs: "pluginName strangerEnv = ''@nomiclabs/buidler-etherscan''"
    "networkName strangerEnv = ''ropsten''" "contracts ?co = [sampleArtifact, linkedArtifact]"
    by (simp_all add: strangerEnv_def sampleEnv_def)
  from no_match_is_reported [OF h1 h2 h3 h4] h1 h2 h3 n1 n2
  show ?thesis unfolding eqs by blast
qed

end
